theory Spec2Isabelle
  imports Main
begin

section \<open>Go library functions used by the webhook\<close>

text \<open>
  Go strings are byte sequences; they are modelled as \<open>string\<close> (lists of 8-bit
  characters). \<open>len\<close> and slicing count bytes, as \<open>length\<close> and \<open>take\<close> do.
\<close>

definition upperLetters :: string where
  "upperLetters = ''ABCDEFGHIJKLMNOPQRSTUVWXYZ''"

definition lowerLetters :: string where
  "lowerLetters = ''abcdefghijklmnopqrstuvwxyz''"

definition toLowerByte :: "char \<Rightarrow> char" where
  "toLowerByte c = (case map_of (zip upperLetters lowerLetters) c of None \<Rightarrow> c | Some d \<Rightarrow> d)"

text \<open>A byte below \<open>utf8.RuneSelf\<close> (0x80).\<close>

definition isASCII :: "char \<Rightarrow> bool" where
  "isASCII c = (\<not> digit7 c)"

text \<open>
  \<open>strings.ToLower\<close>. A string of ASCII bytes only has its letters A--Z folded byte by
  byte. Any other string goes through \<open>strings.Map(unicode.ToLower, s)\<close>, which
  decodes the runes and folds them by the Unicode tables (U+0130 becomes \<open>i\<close>, for
  one); this mapping is the parameter \<open>unicodeLower\<close>.
\<close>

definition ToLower :: "(string \<Rightarrow> string) \<Rightarrow> string \<Rightarrow> string" where
  "ToLower unicodeLower s =
     (if list_all isASCII s then map toLowerByte s else unicodeLower s)"

fun HasPrefix :: "string \<Rightarrow> string \<Rightarrow> bool" where
  "HasPrefix s [] = True"
| "HasPrefix [] (p # ps) = False"
| "HasPrefix (c # cs) (p # ps) = (c = p \<and> HasPrefix cs ps)"

text \<open>\<open>strings.Contains(s, substr)\<close>.\<close>

fun Contains :: "string \<Rightarrow> string \<Rightarrow> bool" where
  "Contains [] substr = (substr = [])"
| "Contains (c # cs) substr = (HasPrefix (c # cs) substr \<or> Contains cs substr)"

text \<open>\<open>strings.ContainsAny(s, chars)\<close>.\<close>

definition ContainsAny :: "string \<Rightarrow> string \<Rightarrow> bool" where
  "ContainsAny s chars = list_ex (\<lambda>c. c \<in> set chars) s"

text \<open>\<open>strings.Split(s, sep)\<close> for a one-byte separator: the pieces between the
  separators, \<open>[""]\<close> for the empty string.\<close>

fun Split :: "string \<Rightarrow> char \<Rightarrow> string list" where
  "Split [] sep = [[]]"
| "Split (c # cs) sep =
     (if c = sep then [] # Split cs sep
      else (case Split cs sep of [] \<Rightarrow> [[c]] | p # ps \<Rightarrow> (c # p) # ps))"

text \<open>\<open>strings.ReplaceAll(s, "--", "-")\<close>: non-overlapping occurrences, left to right.\<close>

fun ReplaceAllDashes :: "string \<Rightarrow> string" where
  "ReplaceAllDashes (a # b # cs) =
     (if a = CHR ''-'' \<and> b = CHR ''-'' then CHR ''-'' # ReplaceAllDashes cs
      else a # ReplaceAllDashes (b # cs))"
| "ReplaceAllDashes cs = cs"

text \<open>\<open>strings.TrimRight(s, cutset)\<close>.\<close>

definition TrimRight :: "string \<Rightarrow> string \<Rightarrow> string" where
  "TrimRight s cutset = rev (dropWhile (\<lambda>c. c \<in> set cutset) (rev s))"

fun natDigits :: "nat \<Rightarrow> string" where
  "natDigits n =
     (if n < 10 then [''0123456789'' ! n]
      else natDigits (n div 10) @ [''0123456789'' ! (n mod 10)])"

declare natDigits.simps [simp del]

text \<open>\<open>strconv.Itoa\<close>.\<close>

definition Itoa :: "int \<Rightarrow> string" where
  "Itoa i = (if i < 0 then CHR ''-'' # natDigits (nat (- i)) else natDigits (nat i))"

text \<open>A Go map read \<open>m[k]\<close> on a \<open>map[string]string\<close> (or a \<open>map[string][]byte\<close>
  converted to string): the zero value for a missing key, also on a nil map.\<close>

definition mapIndex :: "(string \<rightharpoonup> string) \<Rightarrow> string \<Rightarrow> string" where
  "mapIndex m k = (case m k of None \<Rightarrow> [] | Some v \<Rightarrow> v)"

section \<open>Data model\<close>

record EnvVar =
  env_Name :: string
  env_Value :: string

record VolumeMount =
  vm_Name :: string
  vm_MountPath :: string

record Container =
  c_Name :: string
  c_Args :: "string list"
  c_Env :: "EnvVar list"
  c_VolumeMounts :: "VolumeMount list"

text \<open>\<open>VolumeAttributes\<close> is a Go map that may be nil (\<open>None\<close>); \<open>CSI\<close> is a pointer
  that may be nil.\<close>

record CSIVolumeSource =
  VolumeAttributes :: "(string \<rightharpoonup> string) option"

record Volume =
  v_Name :: string
  CSI :: "CSIVolumeSource option"

record Config =
  cfg_Containers :: "Container list"
  cfg_Volumes :: "Volume list"

record ObjectMeta =
  Namespace :: string
  Labels :: "string \<rightharpoonup> string"
  Annotations :: "string \<rightharpoonup> string"

record PodSpec =
  spec_Containers :: "Container list"
  spec_Volumes :: "Volume list"

record Pod =
  ObjectMeta :: ObjectMeta
  Spec :: PodSpec

record Secret =
  secret_Name :: string
  Data :: "string \<rightharpoonup> string"

datatype scalar = Str string | Bool bool

text \<open>\<open>type M map[string]interface{}\<close>\<close>

type_synonym M = "string \<rightharpoonup> scalar"

datatype patchValue =
    ContainerV Container
  | ContainerListV "Container list"
  | VolumeV Volume
  | VolumeListV "Volume list"
  | AnnotationsV "string \<rightharpoonup> string"
  | StringV string
  | MountV M
  | MountListV "M list"

record patchOperation =
  Op :: string
  Path :: string
  Value :: patchValue

text \<open>Go run-time panics.\<close>

datatype error = IndexOutOfRange | NilDereference | NilMapAssignment

definition admissionWebhookAnnotationInjectKey :: string where
  "admissionWebhookAnnotationInjectKey = ''filer-injector-webhook.das-zone.statcan/inject''"

definition admissionWebhookAnnotationStatusKey :: string where
  "admissionWebhookAnnotationStatusKey = ''filer-injector-webhook.das-zone.statcan/status''"

section \<open>Mutation policy\<close>

text \<open>\<open>mutationRequired\<close> (lines 81--109); \<open>unicodeLower\<close> is the rune mapping of
  \<open>strings.ToLower\<close>.\<close>

definition mutationRequired :: "(string \<Rightarrow> string) \<Rightarrow> ObjectMeta \<Rightarrow> bool" where
  "mutationRequired unicodeLower metadata =
     (case Labels metadata ''notebook-name'' of
        None \<Rightarrow> False
      | Some _ \<Rightarrow>
          (let annotations = Annotations metadata;
               status = mapIndex annotations admissionWebhookAnnotationStatusKey
           in if ToLower unicodeLower status = ''injected'' then False
              else (let v = ToLower unicodeLower
                              (mapIndex annotations admissionWebhookAnnotationInjectKey)
                    in if v \<in> set [''n'', ''not'', ''false'', ''off''] then False else True)))"

section \<open>Patch builders\<close>

fun addContainerLoop :: "bool \<Rightarrow> Container list \<Rightarrow> string \<Rightarrow> patchOperation list" where
  "addContainerLoop first [] basePath = []"
| "addContainerLoop first (add # added) basePath =
     (if first
      then \<lparr>Op = ''add'', Path = basePath, Value = ContainerListV [add]\<rparr>
             # addContainerLoop False added basePath
      else \<lparr>Op = ''add'', Path = basePath @ ''/-'', Value = ContainerV add\<rparr>
             # addContainerLoop False added basePath)"

definition addContainer :: "Container list \<Rightarrow> Container list \<Rightarrow> string \<Rightarrow> patchOperation list" where
  "addContainer target added basePath = addContainerLoop (length target = 0) added basePath"

fun addVolumeLoop :: "bool \<Rightarrow> Volume list \<Rightarrow> string \<Rightarrow> patchOperation list" where
  "addVolumeLoop first [] basePath = []"
| "addVolumeLoop first (add # added) basePath =
     (if first
      then \<lparr>Op = ''add'', Path = basePath, Value = VolumeListV [add]\<rparr>
             # addVolumeLoop False added basePath
      else \<lparr>Op = ''add'', Path = basePath @ ''/-'', Value = VolumeV add\<rparr>
             # addVolumeLoop False added basePath)"

definition addVolume :: "Volume list \<Rightarrow> Volume list \<Rightarrow> string \<Rightarrow> patchOperation list" where
  "addVolume target added basePath = addVolumeLoop (length target = 0) added basePath"

text \<open>\<open>added\<close> is a Go map; the list gives its keys in the order the \<open>range\<close> loop
  visits them. A nil \<open>target\<close> reads like an empty one.\<close>

fun updateAnnotation :: "(string \<rightharpoonup> string) \<Rightarrow> (string \<times> string) list \<Rightarrow> patchOperation list" where
  "updateAnnotation target [] = []"
| "updateAnnotation target ((key, v) # added) =
     (if mapIndex target key = []
      then \<lparr>Op = ''add'', Path = ''/metadata/annotations'', Value = AnnotationsV [key \<mapsto> v]\<rparr>
             # updateAnnotation Map.empty added
      else \<lparr>Op = ''replace'', Path = ''/metadata/annotations/'' @ key, Value = StringV v\<rparr>
             # updateAnnotation target added)"

definition valueA :: "string \<Rightarrow> string \<Rightarrow> string \<Rightarrow> M" where
  "valueA volumeName bucketMount filerName =
     [''name'' \<mapsto> Str volumeName,
      ''mountPath'' \<mapsto> Str (''/home/jovyan/filers/'' @ filerName @ ''/'' @ bucketMount),
      ''readOnly'' \<mapsto> Bool False,
      ''mountPropagation'' \<mapsto> Str ''HostToContainer'']"

definition mountOp :: "string \<Rightarrow> string \<Rightarrow> string \<Rightarrow> bool \<Rightarrow> patchOperation" where
  "mountOp volumeName bucketMount filerName isFirst =
     (if isFirst
      then \<lparr>Op = ''add'', Path = ''/spec/containers/0/volumeMounts'',
             Value = MountListV [valueA volumeName bucketMount filerName]\<rparr>
      else \<lparr>Op = ''add'', Path = ''/spec/containers/0/volumeMounts/-'',
             Value = MountV (valueA volumeName bucketMount filerName)\<rparr>)"

text \<open>The two nested \<open>range\<close> loops: one operation for every environment entry named
  \<open>NB_PREFIX\<close> of every container of the pod.\<close>

definition updateWorkingVolumeMounts ::
  "Container list \<Rightarrow> string \<Rightarrow> string \<Rightarrow> string \<Rightarrow> bool \<Rightarrow> patchOperation list" where
  "updateWorkingVolumeMounts targetContainerSpec volumeName bucketMount filerName isFirst =
     concat (map (\<lambda>c. concat (map (\<lambda>e.
         if env_Name e = ''NB_PREFIX'' then [mountOp volumeName bucketMount filerName isFirst]
         else []) (c_Env c))) targetContainerSpec)"

section \<open>Names\<close>

definition limitString :: "string \<Rightarrow> nat \<Rightarrow> string" where
  "limitString str n = (if length str > n then take n str else str)"

definition cleanName :: "string \<Rightarrow> string" where
  "cleanName name = TrimRight (ReplaceAllDashes name) ''-''"

definition isLowerAlnum :: "char \<Rightarrow> bool" where
  "isLowerAlnum c = (c \<in> set (lowerLetters @ ''0123456789''))"

definition isNameChar :: "char \<Rightarrow> bool" where
  "isNameChar c = (c = CHR ''-'' \<or> isLowerAlnum c)"

text \<open>\<open>validNameRegex.MatchString\<close> for \<open>^[a-z0-9]([-a-z0-9]*[a-z0-9])?$\<close>: one
  character of the first class, then optionally any characters of the second class ending
  in one of the first. (In Go, \<open>$\<close> matches only at the end of the text.)\<close>

fun validName :: "string \<Rightarrow> bool" where
  "validName [] = False"
| "validName (c # cs) =
     (isLowerAlnum c \<and> (cs = [] \<or> (list_all isNameChar cs \<and> isLowerAlnum (last cs))))"

text \<open>\<open>rand.Intn(100)\<close> is the next element of a sequence of draws \<open>rnd\<close>; \<open>d\<close> counts
  the draws made so far.\<close>

definition appendIntIfNeeded :: "(nat \<Rightarrow> nat) \<Rightarrow> nat \<Rightarrow> string \<Rightarrow> string \<times> nat" where
  "appendIntIfNeeded rnd d name =
     (if ContainsAny name ''!@#$%^&*()'' then (name @ Itoa (int (rnd d mod 100)), Suc d)
      else (name, d))"

text \<open>Lines 262--269 of \<open>createPatch\<close>: the filer and bucket segments joined.\<close>

definition joinedName :: "string \<Rightarrow> string list \<Rightarrow> string" where
  "joinedName filerName bucketDirs =
     (let limitFilerName = limitString filerName 7;
          limitBucketName = limitString (hd bucketDirs) 5;
          filerBucketName = limitFilerName @ ''-'' @ limitBucketName
      in TrimRight (ReplaceAllDashes filerBucketName) ''-'')"

text \<open>Lines 272--278: validation, with the retry and the random suffix.\<close>

definition validatedName :: "(nat \<Rightarrow> nat) \<Rightarrow> nat \<Rightarrow> string \<Rightarrow> string \<times> nat" where
  "validatedName rnd d filerBucketName =
     (if \<not> validName filerBucketName
      then (let cleaned = cleanName filerBucketName
            in if \<not> validName cleaned then appendIntIfNeeded rnd d cleaned else (cleaned, d))
      else (filerBucketName, d))"

text \<open>Lines 280--283: the deepest directory, when the mount path has two segments or more.\<close>

definition withDeepestDir :: "string list \<Rightarrow> string \<Rightarrow> string" where
  "withDeepestDir bucketDirs filerBucketName =
     (if length bucketDirs \<ge> 2
      then filerBucketName @ ''-'' @ limitString (last bucketDirs) 5
      else filerBucketName)"

text \<open>Lines 286--288: the ordinal suffix on a name already in the list.\<close>

definition withOrdinal :: "string list \<Rightarrow> string \<Rightarrow> string" where
  "withOrdinal filerBucketList filerBucketName =
     (if filerBucketName \<in> set filerBucketList
      then filerBucketName @ ''-'' @ Itoa (int (length filerBucketList) + 1)
      else filerBucketName)"

text \<open>Lines 259--288 together: the name of one sidecar, and the draws counter.\<close>

definition computedName :: "(nat \<Rightarrow> nat) \<Rightarrow> nat \<Rightarrow> string \<Rightarrow> string \<Rightarrow> string \<times> nat" where
  "computedName rnd d filerName bucketMount =
     (let bucketDirs = Split bucketMount CHR ''/'';
          (validated, d') = validatedName rnd d (joinedName filerName bucketDirs)
      in (withDeepestDir bucketDirs validated, d'))"

definition makeNameToken ::
  "(nat \<Rightarrow> nat) \<Rightarrow> nat \<Rightarrow> string \<Rightarrow> string \<Rightarrow> string list \<Rightarrow> string \<times> nat" where
  "makeNameToken rnd d filerName bucketMount filerBucketList =
     (let (computed, d') = computedName rnd d filerName bucketMount
      in (withOrdinal filerBucketList computed, d'))"

text \<open>The random-suffix path is reached when the joined name fails the grammar before and
  after \<open>cleanName\<close>.\<close>

definition fallbackReached :: "string \<Rightarrow> string \<Rightarrow> bool" where
  "fallbackReached filerName bucketMount =
     (let joined = joinedName filerName (Split bucketMount CHR ''/'')
      in \<not> validName joined \<and> \<not> validName (cleanName joined))"

section \<open>The template store and its deep copy\<close>

text \<open>
  \<open>sidecarConfigTemplate\<close> and \<open>sidecarConfig\<close> are pointers to \<open>Config\<close> objects.
  The store holds the \<open>Config\<close> objects allocated so far; a pointer is an index into it.
  \<open>deepcopy.Anything\<close> copies everything reachable from its argument, so the slices and
  maps of a \<open>Config\<close> belong to that object alone: the copy is a new object at a new
  address. A pointer outside the store is a nil pointer. The store grows only by copies of
  the template, so a nil template pointer stays nil.
\<close>

type_synonym heap = "Config list"

text \<open>What \<open>deepcopy.Anything\<close> builds for a map: a new map with the same entries, also
  for a nil map, whose copy is an empty map and not nil.\<close>

definition copyCSI :: "CSIVolumeSource \<Rightarrow> CSIVolumeSource" where
  "copyCSI csi =
     csi\<lparr>VolumeAttributes :=
       Some (case VolumeAttributes csi of None \<Rightarrow> Map.empty | Some attrs \<Rightarrow> attrs)\<rparr>"

definition copyVolume :: "Volume \<Rightarrow> Volume" where
  "copyVolume v = v\<lparr>CSI := map_option copyCSI (CSI v)\<rparr>"

definition copyConfig :: "Config \<Rightarrow> Config" where
  "copyConfig cfg = cfg\<lparr>cfg_Volumes := map copyVolume (cfg_Volumes cfg)\<rparr>"

text \<open>The copy of a nil pointer is nil, and nothing is allocated.\<close>

definition deepcopy :: "heap \<Rightarrow> nat \<Rightarrow> heap \<times> nat" where
  "deepcopy h p = (if p < length h then (h @ [copyConfig (h ! p)], length h) else (h, p))"

section \<open>Template instantiation\<close>

text \<open>
  An assignment through \<open>sidecarConfig\<close> to a field of element \<open>i\<close> of a slice: the
  index expression panics out of range.
\<close>

definition atContainer :: "nat \<Rightarrow> (Container \<Rightarrow> error + Container) \<Rightarrow> Config \<Rightarrow> error + Config" where
  "atContainer i f cfg =
     (if i < length (cfg_Containers cfg)
      then (case f (cfg_Containers cfg ! i) of
              Inl e \<Rightarrow> Inl e
            | Inr c \<Rightarrow> Inr (cfg\<lparr>cfg_Containers := (cfg_Containers cfg)[i := c]\<rparr>))
      else Inl IndexOutOfRange)"

definition atEnv :: "nat \<Rightarrow> (EnvVar \<Rightarrow> EnvVar) \<Rightarrow> Container \<Rightarrow> error + Container" where
  "atEnv i f c =
     (if i < length (c_Env c) then Inr (c\<lparr>c_Env := (c_Env c)[i := f (c_Env c ! i)]\<rparr>)
      else Inl IndexOutOfRange)"

definition atVolumeMount :: "nat \<Rightarrow> (VolumeMount \<Rightarrow> VolumeMount) \<Rightarrow> Container \<Rightarrow> error + Container" where
  "atVolumeMount i f c =
     (if i < length (c_VolumeMounts c)
      then Inr (c\<lparr>c_VolumeMounts := (c_VolumeMounts c)[i := f (c_VolumeMounts c ! i)]\<rparr>)
      else Inl IndexOutOfRange)"

definition atVolume :: "nat \<Rightarrow> (Volume \<Rightarrow> error + Volume) \<Rightarrow> Config \<Rightarrow> error + Config" where
  "atVolume i f cfg =
     (if i < length (cfg_Volumes cfg)
      then (case f (cfg_Volumes cfg ! i) of
              Inl e \<Rightarrow> Inl e
            | Inr v \<Rightarrow> Inr (cfg\<lparr>cfg_Volumes := (cfg_Volumes cfg)[i := v]\<rparr>))
      else Inl IndexOutOfRange)"

text \<open>\<open>v.CSI.VolumeAttributes[k] = x\<close>: a nil \<open>CSI\<close> pointer and a nil map panic.\<close>

definition setVolumeAttribute :: "string \<Rightarrow> string \<Rightarrow> Volume \<Rightarrow> error + Volume" where
  "setVolumeAttribute k x v =
     (case CSI v of
        None \<Rightarrow> Inl NilDereference
      | Some csi \<Rightarrow>
          (case VolumeAttributes csi of
             None \<Rightarrow> Inl NilMapAssignment
           | Some attrs \<Rightarrow> Inr (v\<lparr>CSI := Some (csi\<lparr>VolumeAttributes := Some (attrs(k \<mapsto> x))\<rparr>)\<rparr>)))"

text \<open>Statements in sequence: a panic stops the sequence and leaves the object as the
  statements before it have written it.\<close>

fun runSteps :: "(Config \<Rightarrow> error + Config) list \<Rightarrow> Config \<Rightarrow> (error \<times> Config) + Config" where
  "runSteps [] cfg = Inr cfg"
| "runSteps (step # steps) cfg =
     (case step cfg of Inl e \<Rightarrow> Inl (e, cfg) | Inr cfg' \<Rightarrow> runSteps steps cfg')"

text \<open>
  Lines 291--307 of \<open>createPatch\<close>, one step for each assignment, on the object
  \<open>sidecarConfig\<close> points to.
\<close>

definition specialize ::
  "Config \<Rightarrow> string \<Rightarrow> string \<Rightarrow> string \<Rightarrow> string \<Rightarrow> string \<Rightarrow> string
     \<Rightarrow> (error \<times> Config) + Config" where
  "specialize sidecarConfig filerBucketName namespace s3Url s3Access s3Secret bucketMount =
     (let fdPassingvolumeMountName = ''fuse-fd-passing-'' @ filerBucketName @ ''-'' @ namespace;
          csiEphemeralVolumeountName = ''fuse-csi-ephemeral-'' @ filerBucketName @ ''-'' @ namespace
      in runSteps
        [atContainer 0 (\<lambda>c. Inr (c\<lparr>c_Name := filerBucketName\<rparr>)),
         atContainer 0 (\<lambda>c. Inr (c\<lparr>c_Args := [''-c'', ''/goofys --cheap --endpoint '' @ s3Url @
            '' --http-timeout 1500s --dir-mode 0777 --file-mode 0777  --debug_fuse --debug_s3 -o allow_other -f '' @
            bucketMount @ ''/ /tmp; echo sleeping...; sleep infinity'']\<rparr>)),
         atContainer 0 (atEnv 0 (\<lambda>e. e\<lparr>env_Value := ''fusermount3-proxy-'' @ filerBucketName @
            ''-'' @ namespace @ ''/fuse-csi-ephemeral.sock''\<rparr>)),
         atContainer 0 (atEnv 1 (\<lambda>e. e\<lparr>env_Value := s3Access\<rparr>)),
         atContainer 0 (atEnv 2 (\<lambda>e. e\<lparr>env_Value := s3Secret\<rparr>)),
         atContainer 0 (atVolumeMount 0 (\<lambda>m. m\<lparr>vm_Name := fdPassingvolumeMountName\<rparr>)),
         atContainer 0 (atVolumeMount 0 (\<lambda>m. m\<lparr>vm_MountPath := ''fusermount3-proxy-'' @
            filerBucketName @ ''-'' @ namespace\<rparr>)),
         atVolume 0 (\<lambda>v. Inr (v\<lparr>v_Name := fdPassingvolumeMountName\<rparr>)),
         atVolume 1 (\<lambda>v. Inr (v\<lparr>v_Name := csiEphemeralVolumeountName\<rparr>)),
         atVolume 1 (setVolumeAttribute ''fdPassingEmptyDirName'' fdPassingvolumeMountName)]
        sidecarConfig)"

section \<open>The orchestrator\<close>

text \<open>The variables of \<open>createPatch\<close> that change in its loop, the store and the number
  of random draws.\<close>

record loopState =
  patch :: "patchOperation list"
  filerBucketList :: "string list"
  isFirstVol :: bool
  heap :: heap
  draws :: nat

text \<open>The four required fields of a secret (lines 243--251).\<close>

definition fieldsMissing :: "Secret \<Rightarrow> bool" where
  "fieldsMissing secret =
     (mapIndex (Data secret) ''S3_BUCKET'' = [] \<or> mapIndex (Data secret) ''S3_URL'' = [] \<or>
      mapIndex (Data secret) ''S3_ACCESS'' = [] \<or> mapIndex (Data secret) ''S3_SECRET'' = [])"

text \<open>Lines 233--237.\<close>

definition filerNameOf :: "Secret \<Rightarrow> string" where
  "filerNameOf secret =
     (let filerNameList = Split (secret_Name secret) CHR ''-''
      in if length filerNameList > 1 then hd filerNameList else ''error'')"

text \<open>Lines 309--312: the operations of one instantiated sidecar.\<close>

definition sidecarOps ::
  "Pod \<Rightarrow> (string \<times> string) list \<Rightarrow> Config \<Rightarrow> string \<Rightarrow> string \<Rightarrow> string \<Rightarrow> bool
     \<Rightarrow> patchOperation list" where
  "sidecarOps pod annotations sidecarConfig filerBucketName bucketMount filerName isFirst =
     addContainer (spec_Containers (Spec pod)) (cfg_Containers sidecarConfig) ''/spec/containers'' @
     addVolume (spec_Volumes (Spec pod)) (cfg_Volumes sidecarConfig) ''/spec/volumes'' @
     updateAnnotation (Annotations (ObjectMeta pod)) annotations @
     updateWorkingVolumeMounts (spec_Containers (Spec pod))
       (''fuse-csi-ephemeral-'' @ filerBucketName @ ''-'' @ Namespace (ObjectMeta pod))
       bucketMount filerName isFirst"

text \<open>The body of the loop over \<open>secretList.Items\<close> (lines 229--315). A panic ends
  the request; it is returned with the store as it is at that moment. The first assignment
  through a nil \<open>sidecarConfig\<close> (line 291) panics.\<close>

definition processSecret ::
  "(nat \<Rightarrow> nat) \<Rightarrow> Pod \<Rightarrow> nat \<Rightarrow> (string \<times> string) list \<Rightarrow> loopState \<Rightarrow> Secret
     \<Rightarrow> (error \<times> heap) + loopState" where
  "processSecret rnd pod sidecarConfigTemplate annotations st secret =
     (if Contains (secret_Name secret) ''filer-conn-secret''
      then
        (let (h, sidecarConfig) = deepcopy (heap st) sidecarConfigTemplate
         in if fieldsMissing secret then Inr (st\<lparr>heap := h\<rparr>)
            else
              (let filerName = filerNameOf secret;
                   bucketMount = mapIndex (Data secret) ''S3_BUCKET'';
                   (filerBucketName, d) =
                     makeNameToken rnd (draws st) filerName bucketMount (filerBucketList st)
               in if sidecarConfig < length h
                  then
                    (case specialize (h ! sidecarConfig) filerBucketName
                            (Namespace (ObjectMeta pod))
                            (mapIndex (Data secret) ''S3_URL'') (mapIndex (Data secret) ''S3_ACCESS'')
                            (mapIndex (Data secret) ''S3_SECRET'') bucketMount of
                       Inl (e, cfg) \<Rightarrow> Inl (e, h[sidecarConfig := cfg])
                     | Inr cfg \<Rightarrow>
                         Inr \<lparr>patch = patch st @
                                sidecarOps pod annotations cfg filerBucketName bucketMount filerName
                                  (isFirstVol st),
                              filerBucketList = filerBucketList st @ [filerBucketName],
                              isFirstVol = False,
                              heap = h[sidecarConfig := cfg],
                              draws = d\<rparr>)
                  else Inl (NilDereference, h)))
      else Inr st)"

fun runSecrets ::
  "(nat \<Rightarrow> nat) \<Rightarrow> Pod \<Rightarrow> nat \<Rightarrow> (string \<times> string) list \<Rightarrow> loopState \<Rightarrow> Secret list
     \<Rightarrow> (error \<times> heap) + loopState" where
  "runSecrets rnd pod sidecarConfigTemplate annotations st [] = Inr st"
| "runSecrets rnd pod sidecarConfigTemplate annotations st (secret # items) =
     (case processSecret rnd pod sidecarConfigTemplate annotations st secret of
        Inl e \<Rightarrow> Inl e
      | Inr st' \<Rightarrow> runSecrets rnd pod sidecarConfigTemplate annotations st' items)"

text \<open>Lines 209 and 222--228: the variables before the loop.\<close>

definition initialState :: "Pod \<Rightarrow> heap \<Rightarrow> loopState" where
  "initialState pod h =
     \<lparr>patch = [], filerBucketList = [],
      isFirstVol = (if length (spec_Volumes (Spec pod)) > 0 then False else True),
      heap = h, draws = 0\<rparr>"

fun joinComma :: "string list \<Rightarrow> string" where
  "joinComma [] = []"
| "joinComma [x] = x"
| "joinComma (x # y # ys) = x @ '','' @ joinComma (y # ys)"

text \<open>
  \<open>json.Marshal\<close> of a \<open>[]patchOperation\<close>. The encoding of one operation is a
  parameter. \<open>patch\<close> is declared without a value and only grows by \<open>append\<close>, so it is
  the nil slice exactly when it has no element, and Go encodes a nil slice as \<open>null\<close>.
\<close>

definition Marshal :: "(patchOperation \<Rightarrow> string) \<Rightarrow> patchOperation list \<Rightarrow> string" where
  "Marshal encodeOp ops =
     (if ops = [] then ''null'' else ''['' @ joinComma (map encodeOp ops) @ '']'')"

text \<open>
  \<open>createPatch\<close>. Building the cluster client (lines 212--220) is not modelled: the
  items of the listing of line 221 are the parameter \<open>secretList\<close>. The random draws and
  the store are explicit as well; the result is the serialized patch, or the panic, and the
  store after the call. \<open>json.Marshal\<close> has no error on the values a patch holds.
\<close>

definition createPatch ::
  "(patchOperation \<Rightarrow> string) \<Rightarrow> (nat \<Rightarrow> nat) \<Rightarrow> Secret list \<Rightarrow> heap \<Rightarrow> Pod \<Rightarrow> nat
     \<Rightarrow> (string \<times> string) list \<Rightarrow> (error \<times> heap) + (string \<times> heap)" where
  "createPatch encodeOp rnd secretList h pod sidecarConfigTemplate annotations =
     (case runSecrets rnd pod sidecarConfigTemplate annotations (initialState pod h) secretList of
        Inl e \<Rightarrow> Inl e
      | Inr st \<Rightarrow> Inr (Marshal encodeOp (patch st), heap st))"

text \<open>The store when the loop, or \<open>createPatch\<close>, is over, by return or by panic.\<close>

definition heapAfter :: "(error \<times> heap) + loopState \<Rightarrow> heap" where
  "heapAfter r = (case r of Inl (e, h) \<Rightarrow> h | Inr st \<Rightarrow> heap st)"

definition storeAfter :: "(error \<times> heap) + (string \<times> heap) \<Rightarrow> heap" where
  "storeAfter r = (case r of Inl (e, h) \<Rightarrow> h | Inr (out, h) \<Rightarrow> h)"

text \<open>The templates on which lines 291--307 do not panic: a first container with three
  environment entries and a volume mount, and two volumes, the second with a \<open>CSI\<close>
  source.\<close>

definition templateFits :: "Config \<Rightarrow> bool" where
  "templateFits cfg =
     (case cfg_Containers cfg of
        [] \<Rightarrow> False
      | c # cs \<Rightarrow>
          3 \<le> length (c_Env c) \<and> c_VolumeMounts c \<noteq> [] \<and> 2 \<le> length (cfg_Volumes cfg) \<and>
          CSI (cfg_Volumes cfg ! 1) \<noteq> None)"

text \<open>A credential candidate (line 231) with all four required fields (line 251).\<close>

definition validCandidate :: "Secret \<Rightarrow> bool" where
  "validCandidate secret =
     (Contains (secret_Name secret) ''filer-conn-secret'' \<and> \<not> fieldsMissing secret)"

text \<open>Two panics of the same kind.\<close>

definition sameError :: "error \<times> heap \<Rightarrow> error \<times> heap \<Rightarrow> bool" where
  "sameError a b = (fst a = fst b)"

text \<open>Two loop states that differ at most in the copies the store holds: the same
  variables, and the same template behind the pointer.\<close>

definition agree :: "nat \<Rightarrow> loopState \<Rightarrow> loopState \<Rightarrow> bool" where
  "agree tp s t =
     (patch s = patch t \<and> filerBucketList s = filerBucketList t \<and> isFirstVol s = isFirstVol t \<and>
      draws s = draws t \<and> tp < length (heap s) \<and> tp < length (heap t) \<and> heap s ! tp = heap t ! tp)"

text \<open>The containers and volumes a patch adds.\<close>

fun containersOf :: "patchValue \<Rightarrow> Container list" where
  "containersOf (ContainerV c) = [c]"
| "containersOf (ContainerListV cs) = cs"
| "containersOf v = []"

fun volumesOf :: "patchValue \<Rightarrow> Volume list" where
  "volumesOf (VolumeV v) = [v]"
| "volumesOf (VolumeListV vs) = vs"
| "volumesOf v = []"

definition addedContainers :: "patchOperation list \<Rightarrow> Container list" where
  "addedContainers ops = concat (map (containersOf \<circ> Value) ops)"

definition addedVolumes :: "patchOperation list \<Rightarrow> Volume list" where
  "addedVolumes ops = concat (map (volumesOf \<circ> Value) ops)"

section \<open>A template, a pod and secrets to evaluate on\<close>

definition templateConfig :: Config where
  "templateConfig =
     \<lparr>cfg_Containers =
        [\<lparr>c_Name = ''goofys'', c_Args = [],
          c_Env = [\<lparr>env_Name = ''FUSERMOUNT3PROXY_FDPASSING_SOCKPATH'', env_Value = []\<rparr>,
                   \<lparr>env_Name = ''AWS_ACCESS_KEY_ID'', env_Value = []\<rparr>,
                   \<lparr>env_Name = ''AWS_SECRET_ACCESS_KEY'', env_Value = []\<rparr>],
          c_VolumeMounts = [\<lparr>vm_Name = ''fuse-fd-passing'', vm_MountPath = ''/fusermount3-proxy''\<rparr>]\<rparr>],
      cfg_Volumes =
        [\<lparr>v_Name = ''fuse-fd-passing'', CSI = None\<rparr>,
         \<lparr>v_Name = ''fuse-csi-ephemeral'',
          CSI = Some \<lparr>VolumeAttributes = Some Map.empty\<rparr>\<rparr>]\<rparr>"

text \<open>A template with one environment entry where three are written.\<close>

definition shortTemplate :: Config where
  "shortTemplate =
     templateConfig\<lparr>cfg_Containers :=
       [\<lparr>c_Name = ''goofys'', c_Args = [],
         c_Env = [\<lparr>env_Name = ''FUSERMOUNT3PROXY_FDPASSING_SOCKPATH'', env_Value = []\<rparr>],
         c_VolumeMounts = [\<lparr>vm_Name = ''fuse-fd-passing'', vm_MountPath = ''/fusermount3-proxy''\<rparr>]\<rparr>]\<rparr>"

definition notebookContainer :: Container where
  "notebookContainer =
     \<lparr>c_Name = ''notebook'', c_Args = [],
      c_Env = [\<lparr>env_Name = ''NB_PREFIX'', env_Value = ''/notebook/ns1/nb''\<rparr>],
      c_VolumeMounts = []\<rparr>"

definition notebookPod :: Pod where
  "notebookPod =
     \<lparr>ObjectMeta = \<lparr>Namespace = ''ns1'', Labels = [''notebook-name'' \<mapsto> ''nb''],
                    Annotations = Map.empty\<rparr>,
      Spec = \<lparr>spec_Containers = [notebookContainer], spec_Volumes = []\<rparr>\<rparr>"

definition filerSecret :: "string \<Rightarrow> string \<Rightarrow> Secret" where
  "filerSecret name bucket =
     \<lparr>secret_Name = name,
      Data = [''S3_BUCKET'' \<mapsto> bucket, ''S3_URL'' \<mapsto> ''https://s3.example'',
              ''S3_ACCESS'' \<mapsto> ''ak'', ''S3_SECRET'' \<mapsto> ''sk'']\<rparr>"

definition statusAnnotations :: "(string \<times> string) list" where
  "statusAnnotations = [(admissionWebhookAnnotationStatusKey, ''injected'')]"

text \<open>A fragment of \<open>strings.Map(unicode.ToLower, s)\<close> to evaluate on: U+0130 (the
  bytes C4 B0) becomes \<open>i\<close>, ASCII letters are folded, other bytes are kept.\<close>

fun lowerDottedI :: "string \<Rightarrow> string" where
  "lowerDottedI (a # b # cs) =
     (if a = CHR 0xC4 \<and> b = CHR 0xB0 then CHR ''i'' # lowerDottedI cs
      else toLowerByte a # lowerDottedI (b # cs))"
| "lowerDottedI cs = map toLowerByte cs"

text \<open>The status \<open>INJECTED\<close> written with U+0130 as its first letter.\<close>

definition dottedInjectedMeta :: ObjectMeta where
  "dottedInjectedMeta =
     \<lparr>Namespace = ''ns1'', Labels = [''notebook-name'' \<mapsto> ''nb''],
      Annotations = [admissionWebhookAnnotationStatusKey \<mapsto> CHR 0xC4 # CHR 0xB0 # ''NJECTED'']\<rparr>"

text \<open>The template with a nil \<open>VolumeAttributes\<close> map.\<close>

definition nilAttributesTemplate :: Config where
  "nilAttributesTemplate =
     templateConfig\<lparr>cfg_Volumes :=
       [\<lparr>v_Name = ''fuse-fd-passing'', CSI = None\<rparr>,
        \<lparr>v_Name = ''fuse-csi-ephemeral'', CSI = Some \<lparr>VolumeAttributes = None\<rparr>\<rparr>]\<rparr>"

definition zeroDraws :: "nat \<Rightarrow> nat" where
  "zeroDraws n = 0"

definition encodeOpPath :: "patchOperation \<Rightarrow> string" where
  "encodeOpPath p = Op p @ '' '' @ Path p"

definition optedOutMeta :: ObjectMeta where
  "optedOutMeta =
     \<lparr>Namespace = ''ns1'', Labels = [''notebook-name'' \<mapsto> ''nb''],
      Annotations = [admissionWebhookAnnotationInjectKey \<mapsto> ''OFF'']\<rparr>"

definition injectedMeta :: ObjectMeta where
  "injectedMeta =
     \<lparr>Namespace = ''ns1'', Labels = [''notebook-name'' \<mapsto> ''nb''],
      Annotations = [admissionWebhookAnnotationStatusKey \<mapsto> ''Injected'']\<rparr>"

definition unlabelledMeta :: ObjectMeta where
  "unlabelledMeta = \<lparr>Namespace = ''ns1'', Labels = Map.empty, Annotations = Map.empty\<rparr>"

text \<open>A pod without volumes whose first container already has a volume mount.\<close>

definition mountedPod :: Pod where
  "mountedPod =
     \<lparr>ObjectMeta = \<lparr>Namespace = ''ns1'', Labels = [''notebook-name'' \<mapsto> ''nb''],
                    Annotations = Map.empty\<rparr>,
      Spec = \<lparr>spec_Containers =
                [notebookContainer\<lparr>c_VolumeMounts :=
                   [\<lparr>vm_Name = ''dshm'', vm_MountPath = ''/dev/shm''\<rparr>]\<rparr>],
              spec_Volumes = []\<rparr>\<rparr>"

definition acctSecret :: Secret where
  "acctSecret = filerSecret ''acct-filer-conn-secret'' ''data/project''"

definition incompleteSecret :: Secret where
  "incompleteSecret =
     \<lparr>secret_Name = ''old-filer-conn-secret'',
      Data = [''S3_BUCKET'' \<mapsto> ''data'', ''S3_URL'' \<mapsto> ''https://s3.example'']\<rparr>"

definition otherSecret :: Secret where
  "otherSecret = filerSecret ''registry-credentials'' ''data''"

section \<open>Evaluation\<close>

lemmas string_defs = ToLower_def isASCII_def toLowerByte_def upperLetters_def lowerLetters_def
  ContainsAny_def TrimRight_def Itoa_def natDigits.simps mapIndex_def

lemmas name_defs = limitString_def cleanName_def isLowerAlnum_def isNameChar_def
  appendIntIfNeeded_def joinedName_def validatedName_def withDeepestDir_def withOrdinal_def
  computedName_def makeNameToken_def fallbackReached_def filerNameOf_def

lemmas builder_defs = addContainer_def addVolume_def valueA_def mountOp_def
  updateWorkingVolumeMounts_def sidecarOps_def addedContainers_def addedVolumes_def

lemmas run_defs = deepcopy_def copyConfig_def copyVolume_def copyCSI_def atContainer_def atEnv_def atVolumeMount_def atVolume_def
  setVolumeAttribute_def specialize_def fieldsMissing_def validCandidate_def
  processSecret_def initialState_def Marshal_def createPatch_def storeAfter_def

lemmas example_defs = templateConfig_def notebookContainer_def notebookPod_def filerSecret_def
  statusAnnotations_def admissionWebhookAnnotationStatusKey_def
  admissionWebhookAnnotationInjectKey_def zeroDraws_def encodeOpPath_def optedOutMeta_def
  injectedMeta_def unlabelledMeta_def mountedPod_def acctSecret_def incompleteSecret_def
  otherSecret_def dottedInjectedMeta_def nilAttributesTemplate_def

section \<open>Mutation policy: properties\<close>

lemma ToLower_Nil: "ToLower unicodeLower [] = []"
  by (simp add: ToLower_def)

lemma ToLower_ascii: "list_all isASCII s \<Longrightarrow> ToLower unicodeLower s = map toLowerByte s"
  by (simp add: ToLower_def)

lemma ToLower_other: "\<not> list_all isASCII s \<Longrightarrow> ToLower unicodeLower s = unicodeLower s"
  by (simp add: ToLower_def)

text \<open>
  Claim C1. The policy on a pod's metadata, for any rune mapping of \<open>strings.ToLower\<close>:
  without the label \<open>notebook-name\<close> no mutation; with a status annotation that
  lower-cases to \<open>injected\<close> no mutation; otherwise no mutation exactly when the inject
  annotation is present and its lower-cased value is one of \<open>n\<close>, \<open>not\<close>, \<open>false\<close>,
  \<open>off\<close>, and mutation in every other case.
\<close>

theorem mutationRequired_policy:
  "(Labels md ''notebook-name'' = None \<longrightarrow> \<not> mutationRequired unicodeLower md) \<and>
   (ToLower unicodeLower (mapIndex (Annotations md) admissionWebhookAnnotationStatusKey) =
      ''injected'' \<longrightarrow> \<not> mutationRequired unicodeLower md) \<and>
   (Labels md ''notebook-name'' \<noteq> None \<and>
    ToLower unicodeLower (mapIndex (Annotations md) admissionWebhookAnnotationStatusKey) \<noteq>
      ''injected''
      \<longrightarrow> (\<not> mutationRequired unicodeLower md) =
            (\<exists>v. Annotations md admissionWebhookAnnotationInjectKey = Some v \<and>
                 ToLower unicodeLower v \<in> {''n'', ''not'', ''false'', ''off''}))"
  by (auto simp add: mutationRequired_def mapIndex_def ToLower_Nil Let_def
      split: option.splits)

theorem mutationRequired_policy_witness:
  "mutationRequired lowerDottedI (ObjectMeta notebookPod) \<and>
   \<not> mutationRequired lowerDottedI optedOutMeta \<and>
   \<not> mutationRequired lowerDottedI injectedMeta \<and>
   \<not> mutationRequired lowerDottedI unlabelledMeta \<and>
   \<not> mutationRequired lowerDottedI dottedInjectedMeta"
  using mutationRequired_policy [of "ObjectMeta notebookPod" lowerDottedI]
    mutationRequired_policy [of optedOutMeta lowerDottedI]
    mutationRequired_policy [of injectedMeta lowerDottedI]
    mutationRequired_policy [of unlabelledMeta lowerDottedI]
    mutationRequired_policy [of dottedInjectedMeta lowerDottedI]
  by (simp add: string_defs example_defs)

section \<open>Library functions: properties\<close>

text \<open>\<open>strings.Split\<close> always returns a piece, so \<open>bucketDirs[0]\<close> and
  \<open>bucketDirs[len(bucketDirs)-1]\<close> never panic.\<close>

lemma Split_nonempty: "Split s sep \<noteq> []"
  by (induction s) (auto split: list.splits)

section \<open>What the template instantiation writes\<close>

text \<open>A call of \<open>specialize\<close> that does not panic: the shape of the template and what
  the assignments of lines 291--307 leave in the copy.\<close>

lemma specialize_Inr:
  assumes "specialize cfg0 tok ns u a s b = Inr cfg"
  shows "\<exists>c cs e0 e1 e2 es m ms v0 v1 vs csi attrs.
     cfg_Containers cfg0 = c # cs \<and> c_Env c = e0 # e1 # e2 # es \<and> c_VolumeMounts c = m # ms \<and>
     cfg_Volumes cfg0 = v0 # v1 # vs \<and> CSI v1 = Some csi \<and> VolumeAttributes csi = Some attrs \<and>
     cfg = cfg0\<lparr>cfg_Containers :=
             c\<lparr>c_Name := tok,
               c_Args := [''-c'', ''/goofys --cheap --endpoint '' @ u @
                  '' --http-timeout 1500s --dir-mode 0777 --file-mode 0777  --debug_fuse --debug_s3 -o allow_other -f '' @
                  b @ ''/ /tmp; echo sleeping...; sleep infinity''],
               c_Env := e0\<lparr>env_Value := ''fusermount3-proxy-'' @ tok @ ''-'' @ ns @ ''/fuse-csi-ephemeral.sock''\<rparr>
                        # e1\<lparr>env_Value := a\<rparr> # e2\<lparr>env_Value := s\<rparr> # es,
               c_VolumeMounts := m\<lparr>vm_Name := ''fuse-fd-passing-'' @ tok @ ''-'' @ ns,
                                   vm_MountPath := ''fusermount3-proxy-'' @ tok @ ''-'' @ ns\<rparr> # ms\<rparr> # cs,
           cfg_Volumes := v0\<lparr>v_Name := ''fuse-fd-passing-'' @ tok @ ''-'' @ ns\<rparr>
             # v1\<lparr>v_Name := ''fuse-csi-ephemeral-'' @ tok @ ''-'' @ ns,
                   CSI := Some (csi\<lparr>VolumeAttributes := Some (attrs(''fdPassingEmptyDirName'' \<mapsto>
                      ''fuse-fd-passing-'' @ tok @ ''-'' @ ns))\<rparr>)\<rparr> # vs\<rparr>"
proof -
  note defs = specialize_def atContainer_def atEnv_def atVolumeMount_def atVolume_def
    setVolumeAttribute_def Let_def
  from assms obtain c cs where c: "cfg_Containers cfg0 = c # cs"
    by (cases "cfg_Containers cfg0") (simp_all add: defs)
  from assms c obtain e0 es0 where e0: "c_Env c = e0 # es0"
    by (cases "c_Env c") (simp_all add: defs)
  from assms c e0 obtain e1 es1 where e1: "es0 = e1 # es1"
    by (cases es0) (simp_all add: defs)
  from assms c e0 e1 obtain e2 es where e2: "es1 = e2 # es"
    by (cases es1) (simp_all add: defs)
  from assms c e0 e1 e2 obtain m ms where m: "c_VolumeMounts c = m # ms"
    by (cases "c_VolumeMounts c") (simp_all add: defs)
  from assms c e0 e1 e2 m obtain v0 vs0 where v0: "cfg_Volumes cfg0 = v0 # vs0"
    by (cases "cfg_Volumes cfg0") (simp_all add: defs)
  from assms c e0 e1 e2 m v0 obtain v1 vs where v1: "vs0 = v1 # vs"
    by (cases vs0) (simp_all add: defs)
  from assms c e0 e1 e2 m v0 v1 obtain csi where csi: "CSI v1 = Some csi"
    by (cases "CSI v1") (simp_all add: defs)
  from assms c e0 e1 e2 m v0 v1 csi obtain attrs where attrs: "VolumeAttributes csi = Some attrs"
    by (cases "VolumeAttributes csi") (simp_all add: defs)
  from assms c e0 e1 e2 m v0 v1 csi attrs show ?thesis
    by (simp add: defs)
qed

lemma specialize_facts:
  assumes "specialize cfg0 tok ns u a s b = Inr cfg"
  shows "\<exists>c cs e0 es m ms v0 v1 vs csi attrs.
     cfg_Containers cfg = c # cs \<and> c_Name c = tok \<and>
     c_Env c = e0 # es \<and> env_Value e0 = ''fusermount3-proxy-'' @ tok @ ''-'' @ ns @ ''/fuse-csi-ephemeral.sock'' \<and>
     c_VolumeMounts c = m # ms \<and> vm_Name m = ''fuse-fd-passing-'' @ tok @ ''-'' @ ns \<and>
     vm_MountPath m = ''fusermount3-proxy-'' @ tok @ ''-'' @ ns \<and>
     cfg_Volumes cfg = v0 # v1 # vs \<and> v_Name v0 = ''fuse-fd-passing-'' @ tok @ ''-'' @ ns \<and>
     v_Name v1 = ''fuse-csi-ephemeral-'' @ tok @ ''-'' @ ns \<and>
     CSI v1 = Some csi \<and> VolumeAttributes csi = Some attrs \<and>
     attrs ''fdPassingEmptyDirName'' = Some (''fuse-fd-passing-'' @ tok @ ''-'' @ ns)"
  using specialize_Inr [OF assms] by (elim exE conjE) simp

text \<open>On the copy of a template, \<open>specialize\<close> returns exactly when the template
  fits: the copy of a nil \<open>VolumeAttributes\<close> map is a map.\<close>

lemma specialize_fits:
  assumes "templateFits cfg0"
  shows "\<exists>cfg. specialize (copyConfig cfg0) tok ns u a s b = Inr cfg"
proof -
  from assms obtain c cs where c: "cfg_Containers cfg0 = c # cs"
    by (cases "cfg_Containers cfg0") (simp_all add: templateFits_def)
  from assms c have l: "3 \<le> length (c_Env c)" "c_VolumeMounts c \<noteq> []"
    "2 \<le> length (cfg_Volumes cfg0)" "CSI (cfg_Volumes cfg0 ! 1) \<noteq> None"
    by (simp_all add: templateFits_def)
  from l(1) obtain e0 e1 e2 es where e: "c_Env c = e0 # e1 # e2 # es"
    by (cases "c_Env c"; cases "tl (c_Env c)"; cases "tl (tl (c_Env c))") auto
  from l(2) obtain m ms where m: "c_VolumeMounts c = m # ms"
    by (cases "c_VolumeMounts c") auto
  from l(3) obtain v0 v1 vs where v: "cfg_Volumes cfg0 = v0 # v1 # vs"
    by (cases "cfg_Volumes cfg0"; cases "tl (cfg_Volumes cfg0)") auto
  from l(4) v obtain csi where csi: "CSI v1 = Some csi" by auto
  from c e m v csi show ?thesis
    by (simp add: specialize_def copyConfig_def copyVolume_def copyCSI_def atContainer_def
        atEnv_def atVolumeMount_def atVolume_def setVolumeAttribute_def Let_def)
qed

lemma specialize_fits_conv:
  assumes "specialize (copyConfig cfg0) tok ns u a s b = Inr cfg"
  shows "templateFits cfg0"
proof -
  from specialize_Inr [OF assms] obtain c cs e0 e1 e2 es m ms v0 v1 vs csi where
    "cfg_Containers (copyConfig cfg0) = c # cs" "c_Env c = e0 # e1 # e2 # es"
    "c_VolumeMounts c = m # ms" "cfg_Volumes (copyConfig cfg0) = v0 # v1 # vs" "CSI v1 = Some csi"
    by blast
  then show ?thesis
    by (auto simp add: templateFits_def copyConfig_def copyVolume_def map_eq_Cons_conv)
qed

section \<open>One step of the loop\<close>

lemma processSecret_other:
  "\<not> Contains (secret_Name secret) ''filer-conn-secret'' \<Longrightarrow>
     processSecret rnd pod tp ann st secret = Inr st"
  by (simp add: processSecret_def)

lemma processSecret_missing:
  assumes "Contains (secret_Name secret) ''filer-conn-secret''" "fieldsMissing secret" "tp < length (heap st)"
  shows "processSecret rnd pod tp ann st secret =
           Inr (st\<lparr>heap := heap st @ [copyConfig (heap st ! tp)]\<rparr>)"
  using assms by (simp add: processSecret_def deepcopy_def)

lemma processSecret_valid:
  assumes "validCandidate secret" "tp < length (heap st)"
  shows "processSecret rnd pod tp ann st secret =
    (case specialize (copyConfig (heap st ! tp))
              (fst (makeNameToken rnd (draws st) (filerNameOf secret) (mapIndex (Data secret) ''S3_BUCKET'') (filerBucketList st)))
              (Namespace (ObjectMeta pod)) (mapIndex (Data secret) ''S3_URL'') (mapIndex (Data secret) ''S3_ACCESS'')
              (mapIndex (Data secret) ''S3_SECRET'') (mapIndex (Data secret) ''S3_BUCKET'') of
       Inl (e, cfg) \<Rightarrow> Inl (e, heap st @ [cfg])
     | Inr cfg \<Rightarrow> Inr
        \<lparr>patch = patch st @ sidecarOps pod ann cfg
                 (fst (makeNameToken rnd (draws st) (filerNameOf secret) (mapIndex (Data secret) ''S3_BUCKET'') (filerBucketList st)))
                 (mapIndex (Data secret) ''S3_BUCKET'') (filerNameOf secret) (isFirstVol st),
         filerBucketList = filerBucketList st @ [fst (makeNameToken rnd (draws st) (filerNameOf secret) (mapIndex (Data secret) ''S3_BUCKET'') (filerBucketList st))],
         isFirstVol = False,
         heap = heap st @ [cfg],
         draws = snd (makeNameToken rnd (draws st) (filerNameOf secret) (mapIndex (Data secret) ''S3_BUCKET'') (filerBucketList st))\<rparr>)"
  using assms
  by (auto simp add: validCandidate_def processSecret_def deepcopy_def Let_def split: sum.splits prod.splits)

lemma processSecret_nil:
  assumes "validCandidate secret" "\<not> tp < length (heap st)"
  shows "processSecret rnd pod tp ann st secret = Inl (NilDereference, heap st)"
  using assms
  by (simp add: validCandidate_def processSecret_def deepcopy_def Let_def split: prod.splits)

lemma processSecret_missing_nil:
  assumes "Contains (secret_Name secret) ''filer-conn-secret''" "fieldsMissing secret"
    "\<not> tp < length (heap st)"
  shows "processSecret rnd pod tp ann st secret = Inr st"
  using assms by (simp add: processSecret_def deepcopy_def)

lemma processSecret_agree:
  assumes "agree tp s t"
  shows "rel_sum sameError (agree tp) (processSecret rnd pod tp ann s x) (processSecret rnd pod tp ann t x)"
proof (cases "Contains (secret_Name x) ''filer-conn-secret''")
  case False
  with assms show ?thesis by (simp add: processSecret_other)
next
  case c: True
  from assms have tp: "tp < length (heap s)" "tp < length (heap t)" by (simp_all add: agree_def)
  show ?thesis
  proof (cases "fieldsMissing x")
    case True
    with c tp assms show ?thesis
      by (simp add: processSecret_missing agree_def nth_append)
  next
    case False
    with c have v: "validCandidate x" by (simp add: validCandidate_def)
    from assms show ?thesis
      by (simp add: processSecret_valid [OF v tp(1)] processSecret_valid [OF v tp(2)]
          agree_def sameError_def nth_append split: sum.splits)
  qed
qed

lemma runSecrets_agree:
  "agree tp s t \<Longrightarrow>
   rel_sum sameError (agree tp) (runSecrets rnd pod tp ann s xs) (runSecrets rnd pod tp ann t xs)"
proof (induction xs arbitrary: s t)
  case Nil
  then show ?case by simp
next
  case (Cons x xs)
  from processSecret_agree [OF Cons.prems, of rnd pod ann x] show ?case
    by (cases "processSecret rnd pod tp ann s x"; cases "processSecret rnd pod tp ann t x")
       (auto intro: Cons.IH)
qed

lemma agree_missing:
  "agree tp s t \<Longrightarrow> agree tp (s\<lparr>heap := heap s @ [copyConfig (heap s ! tp)]\<rparr>) t"
  by (simp add: agree_def nth_append)

lemma runSecrets_without:
  assumes "Contains (secret_Name x) ''filer-conn-secret''" "fieldsMissing x"
  shows "agree tp s t \<Longrightarrow>
   rel_sum sameError (agree tp) (runSecrets rnd pod tp ann s (pre @ x # rest)) (runSecrets rnd pod tp ann t (pre @ rest))"
proof (induction pre arbitrary: s t)
  case Nil
  then have "tp < length (heap s)" by (simp add: agree_def)
  with assms Nil show ?case
    by (simp add: processSecret_missing runSecrets_agree agree_missing)
next
  case (Cons y pre)
  from processSecret_agree [OF Cons.prems, of rnd pod ann y] show ?case
    by (cases "processSecret rnd pod tp ann s y"; cases "processSecret rnd pod tp ann t y")
       (auto intro: Cons.IH)
qed

lemma runSecrets_valid_only:
  "agree tp s t \<Longrightarrow>
   rel_sum sameError (agree tp) (runSecrets rnd pod tp ann s xs)
     (runSecrets rnd pod tp ann t (filter validCandidate xs))"
proof (induction xs arbitrary: s t)
  case Nil
  then show ?case by simp
next
  case (Cons x xs)
  show ?case
  proof (cases "validCandidate x")
    case True
    from processSecret_agree [OF Cons.prems, of rnd pod ann x] True show ?thesis
      by (cases "processSecret rnd pod tp ann s x"; cases "processSecret rnd pod tp ann t x")
         (auto intro: Cons.IH)
  next
    case False
    from Cons.prems have tp: "tp < length (heap s)" by (simp add: agree_def)
    show ?thesis
    proof (cases "Contains (secret_Name x) ''filer-conn-secret''")
      case True
      with False have "fieldsMissing x" by (simp add: validCandidate_def)
      with True False tp show ?thesis
        by (simp add: processSecret_missing Cons.IH [OF agree_missing [OF Cons.prems]])
    next
      case c: False
      with False show ?thesis
        by (simp add: processSecret_other Cons.IH [OF Cons.prems])
    qed
  qed
qed

lemma agree_refl: "tp < length (heap s) \<Longrightarrow> agree tp s s"
  by (simp add: agree_def)

lemma rel_sum_agree_patch:
  "rel_sum sameError (agree tp) a b \<Longrightarrow> map_sum fst patch a = map_sum fst patch b"
  by (cases a; cases b) (auto simp add: agree_def sameError_def)

lemma rel_sum_agree_names:
  "rel_sum sameError (agree tp) a b \<Longrightarrow> map_sum fst filerBucketList a = map_sum fst filerBucketList b"
  by (cases a; cases b) (auto simp add: agree_def sameError_def)

lemma processSecret_valid_Inr:
  assumes "processSecret rnd pod tp ann st secret = Inr st'" "validCandidate secret"
  shows "tp < length (heap st) \<and>
    (\<exists>cfg. specialize (copyConfig (heap st ! tp))
              (fst (makeNameToken rnd (draws st) (filerNameOf secret) (mapIndex (Data secret) ''S3_BUCKET'') (filerBucketList st)))
              (Namespace (ObjectMeta pod)) (mapIndex (Data secret) ''S3_URL'') (mapIndex (Data secret) ''S3_ACCESS'')
              (mapIndex (Data secret) ''S3_SECRET'') (mapIndex (Data secret) ''S3_BUCKET'') = Inr cfg \<and>
       patch st' = patch st @ sidecarOps pod ann cfg
                 (fst (makeNameToken rnd (draws st) (filerNameOf secret) (mapIndex (Data secret) ''S3_BUCKET'') (filerBucketList st)))
                 (mapIndex (Data secret) ''S3_BUCKET'') (filerNameOf secret) (isFirstVol st) \<and>
       filerBucketList st' = filerBucketList st @
          [fst (makeNameToken rnd (draws st) (filerNameOf secret) (mapIndex (Data secret) ''S3_BUCKET'') (filerBucketList st))] \<and>
       isFirstVol st' = False \<and> heap st' = heap st @ [cfg])"
proof -
  have tp: "tp < length (heap st)"
  proof (rule ccontr)
    assume "\<not> tp < length (heap st)"
    from processSecret_nil [OF assms(2) this] assms(1) show False by simp
  qed
  from assms(1) show ?thesis
    unfolding processSecret_valid [OF assms(2) tp]
    by (auto simp add: tp split: sum.splits)
qed

section \<open>The generated sidecar\<close>

text \<open>For a valid candidate the step returns exactly when the template pointer is not nil
  and the template fits.\<close>

lemma processSecret_returns_iff:
  assumes "validCandidate secret"
  shows "(\<exists>st'. processSecret rnd pod tp ann st secret = Inr st') =
         (tp < length (heap st) \<and> templateFits (heap st ! tp))"
proof
  assume "\<exists>st'. processSecret rnd pod tp ann st secret = Inr st'"
  then obtain st' where "processSecret rnd pod tp ann st secret = Inr st'" ..
  from processSecret_valid_Inr [OF this assms]
  show "tp < length (heap st) \<and> templateFits (heap st ! tp)"
    by (auto dest: specialize_fits_conv)
next
  assume a: "tp < length (heap st) \<and> templateFits (heap st ! tp)"
  then have tp: "tp < length (heap st)" and f: "templateFits (heap st ! tp)" by simp_all
  from specialize_fits [OF f] obtain cfg where
    "specialize (copyConfig (heap st ! tp))
       (fst (makeNameToken rnd (draws st) (filerNameOf secret)
               (mapIndex (Data secret) ''S3_BUCKET'') (filerBucketList st)))
       (Namespace (ObjectMeta pod)) (mapIndex (Data secret) ''S3_URL'')
       (mapIndex (Data secret) ''S3_ACCESS'') (mapIndex (Data secret) ''S3_SECRET'')
       (mapIndex (Data secret) ''S3_BUCKET'') = Inr cfg" by blast
  then show "\<exists>st'. processSecret rnd pod tp ann st secret = Inr st'"
    by (simp add: processSecret_valid [OF assms tp])
qed

text \<open>
  Claim C2. A valid candidate gets its sidecar exactly when the template is there and fits
  (a nil \<open>VolumeAttributes\<close> map included), and every sidecar the loop generates keeps
  the two same-name couplings: the first volume mount of its container and its volume 0
  both carry the name \<open>fuse-fd-passing-<name>-<namespace>\<close>, and the CSI attribute
  \<open>fdPassingEmptyDirName\<close> of its volume 1 is the name of volume 0.
\<close>

theorem sidecar_same_name_couplings:
  assumes "Contains (secret_Name secret) ''filer-conn-secret''"
    and "\<not> fieldsMissing secret"
  shows "((\<exists>s. processSecret rnd pod tp ann st secret = Inr s) =
            (tp < length (heap st) \<and> templateFits (heap st ! tp))) \<and>
   (processSecret rnd pod tp ann st secret = Inr st' \<longrightarrow>
     (\<exists>cfg tok c cs m ms v0 v1 vs csi attrs.
        patch st' = patch st @ sidecarOps pod ann cfg tok (mapIndex (Data secret) ''S3_BUCKET'')
                                 (filerNameOf secret) (isFirstVol st) \<and>
        filerBucketList st' = filerBucketList st @ [tok] \<and>
        cfg_Containers cfg = c # cs \<and> c_Name c = tok \<and> c_VolumeMounts c = m # ms \<and>
        cfg_Volumes cfg = v0 # v1 # vs \<and>
        vm_Name m = ''fuse-fd-passing-'' @ tok @ ''-'' @ Namespace (ObjectMeta pod) \<and>
        v_Name v0 = vm_Name m \<and>
        CSI v1 = Some csi \<and> VolumeAttributes csi = Some attrs \<and>
        attrs ''fdPassingEmptyDirName'' = Some (v_Name v0)))"
proof (intro conjI impI)
  from assms have v: "validCandidate secret" by (simp add: validCandidate_def)
  show "(\<exists>s. processSecret rnd pod tp ann st secret = Inr s) =
            (tp < length (heap st) \<and> templateFits (heap st ! tp))"
    by (rule processSecret_returns_iff [OF v])
  assume run: "processSecret rnd pod tp ann st secret = Inr st'"
  define tok where "tok = fst (makeNameToken rnd (draws st) (filerNameOf secret)
                 (mapIndex (Data secret) ''S3_BUCKET'') (filerBucketList st))"
  from processSecret_valid_Inr [OF run v] obtain cfg where
    s: "specialize (copyConfig (heap st ! tp)) tok (Namespace (ObjectMeta pod))
          (mapIndex (Data secret) ''S3_URL'')
          (mapIndex (Data secret) ''S3_ACCESS'') (mapIndex (Data secret) ''S3_SECRET'')
          (mapIndex (Data secret) ''S3_BUCKET'') = Inr cfg"
    and p: "patch st' = patch st @ sidecarOps pod ann cfg tok (mapIndex (Data secret) ''S3_BUCKET'')
              (filerNameOf secret) (isFirstVol st)"
    and n: "filerBucketList st' = filerBucketList st @ [tok]"
    unfolding tok_def by blast
  from specialize_facts [OF s] obtain c cs m ms v0 v1 vs csi attrs where
    "cfg_Containers cfg = c # cs" "c_Name c = tok" "c_VolumeMounts c = m # ms"
    "vm_Name m = ''fuse-fd-passing-'' @ tok @ ''-'' @ Namespace (ObjectMeta pod)"
    "cfg_Volumes cfg = v0 # v1 # vs"
    "v_Name v0 = ''fuse-fd-passing-'' @ tok @ ''-'' @ Namespace (ObjectMeta pod)"
    "CSI v1 = Some csi" "VolumeAttributes csi = Some attrs"
    "attrs ''fdPassingEmptyDirName'' = Some (''fuse-fd-passing-'' @ tok @ ''-'' @ Namespace (ObjectMeta pod))"
    by blast
  with p n show "\<exists>cfg tok c cs m ms v0 v1 vs csi attrs.
        patch st' = patch st @ sidecarOps pod ann cfg tok (mapIndex (Data secret) ''S3_BUCKET'')
                                 (filerNameOf secret) (isFirstVol st) \<and>
        filerBucketList st' = filerBucketList st @ [tok] \<and>
        cfg_Containers cfg = c # cs \<and> c_Name c = tok \<and> c_VolumeMounts c = m # ms \<and>
        cfg_Volumes cfg = v0 # v1 # vs \<and>
        vm_Name m = ''fuse-fd-passing-'' @ tok @ ''-'' @ Namespace (ObjectMeta pod) \<and>
        v_Name v0 = vm_Name m \<and>
        CSI v1 = Some csi \<and> VolumeAttributes csi = Some attrs \<and>
        attrs ''fdPassingEmptyDirName'' = Some (v_Name v0)"
    by (intro exI [of _ cfg] exI [of _ tok]) auto
qed

text \<open>On the template with the nil \<open>VolumeAttributes\<close> map.\<close>

theorem sidecar_same_name_couplings_witness:
  "\<exists>st' cfg tok c cs m ms v0 v1 vs csi attrs.
     processSecret zeroDraws notebookPod 0 statusAnnotations
       (initialState notebookPod [nilAttributesTemplate]) acctSecret = Inr st' \<and>
     patch st' = patch (initialState notebookPod [nilAttributesTemplate]) @
        sidecarOps notebookPod statusAnnotations cfg tok (mapIndex (Data acctSecret) ''S3_BUCKET'')
          (filerNameOf acctSecret) (isFirstVol (initialState notebookPod [nilAttributesTemplate])) \<and>
     filerBucketList st' = filerBucketList (initialState notebookPod [nilAttributesTemplate]) @ [tok] \<and>
     cfg_Containers cfg = c # cs \<and> c_Name c = tok \<and> c_VolumeMounts c = m # ms \<and>
     cfg_Volumes cfg = v0 # v1 # vs \<and>
     vm_Name m = ''fuse-fd-passing-'' @ tok @ ''-'' @ Namespace (ObjectMeta notebookPod) \<and>
     v_Name v0 = vm_Name m \<and>
     CSI v1 = Some csi \<and> VolumeAttributes csi = Some attrs \<and>
     attrs ''fdPassingEmptyDirName'' = Some (v_Name v0)"
proof -
  let ?s0 = "initialState notebookPod [nilAttributesTemplate]"
  have c: "Contains (secret_Name acctSecret) ''filer-conn-secret''"
    by (simp add: example_defs)
  have f: "\<not> fieldsMissing acctSecret"
    by (simp add: string_defs run_defs example_defs)
  have t: "0 < length (heap ?s0) \<and> templateFits (heap ?s0 ! 0)"
    by (simp add: initialState_def templateFits_def example_defs)
  note T = sidecar_same_name_couplings [OF c f, of zeroDraws notebookPod 0 statusAnnotations ?s0]
  from T t obtain st' where run: "processSecret zeroDraws notebookPod 0 statusAnnotations ?s0
      acctSecret = Inr st'" by blast
  from T [of st'] run show ?thesis by blast
qed

section \<open>Which secrets are credential candidates\<close>

text \<open>
  Claim C10. Only a secret whose name contains \<open>filer-conn-secret\<close> is a credential
  candidate: any other listed object leaves the loop's state as it is, whatever its data
  fields, so the result of \<open>createPatch\<close> is the one for the listing without these
  objects.
\<close>

theorem only_filer_conn_secrets:
  "(\<not> Contains (secret_Name secret) ''filer-conn-secret'' \<longrightarrow>
      processSecret rnd pod tp ann st secret = Inr st) \<and>
   createPatch enc rnd secretList h pod tp ann =
   createPatch enc rnd (filter (\<lambda>s. Contains (secret_Name s) ''filer-conn-secret'') secretList)
     h pod tp ann"
proof -
  have "runSecrets rnd pod tp ann s xs =
        runSecrets rnd pod tp ann s (filter (\<lambda>s. Contains (secret_Name s) ''filer-conn-secret'') xs)"
    for s xs
    by (induction xs arbitrary: s) (auto simp add: processSecret_other split: sum.splits)
  then show ?thesis
    by (simp add: createPatch_def processSecret_other)
qed

theorem only_filer_conn_secrets_witness:
  "processSecret zeroDraws notebookPod 0 statusAnnotations
      (initialState notebookPod [templateConfig]) otherSecret =
     Inr (initialState notebookPod [templateConfig]) \<and>
   createPatch encodeOpPath zeroDraws [otherSecret, acctSecret, otherSecret] [templateConfig]
      notebookPod 0 statusAnnotations =
   createPatch encodeOpPath zeroDraws [acctSecret] [templateConfig] notebookPod 0 statusAnnotations"
proof -
  have n: "\<not> Contains (secret_Name otherSecret) ''filer-conn-secret''"
    by (simp add: example_defs)
  have c: "Contains (secret_Name acctSecret) ''filer-conn-secret''"
    by (simp add: example_defs)
  from only_filer_conn_secrets [of otherSecret zeroDraws notebookPod 0 statusAnnotations
      "initialState notebookPod [templateConfig]" encodeOpPath
      "[otherSecret, acctSecret, otherSecret]" "[templateConfig]"] n c
  show ?thesis by simp
qed

section \<open>The shared template\<close>

lemma processSecret_heapAfter:
  "\<exists>ys. heapAfter (processSecret rnd pod tp ann st secret) = heap st @ ys"
proof (cases "Contains (secret_Name secret) ''filer-conn-secret''")
  case False
  then show ?thesis by (simp add: processSecret_other heapAfter_def)
next
  case c: True
  show ?thesis
  proof (cases "tp < length (heap st)")
    case False
    with c show ?thesis
      by (cases "fieldsMissing secret")
         (simp_all add: processSecret_nil processSecret_missing_nil validCandidate_def heapAfter_def)
  next
    case tp: True
    show ?thesis
    proof (cases "fieldsMissing secret")
      case True
      with c tp show ?thesis by (simp add: processSecret_missing heapAfter_def)
    next
      case False
      with c have "validCandidate secret" by (simp add: validCandidate_def)
      from processSecret_valid [OF this tp] show ?thesis
        by (simp add: heapAfter_def split: sum.splits prod.splits)
    qed
  qed
qed

lemma runSecrets_heapAfter:
  "\<exists>ys. heapAfter (runSecrets rnd pod tp ann st secrets) = heap st @ ys"
proof (induction secrets arbitrary: st)
  case Nil
  show ?case by (simp add: heapAfter_def)
next
  case (Cons s secrets)
  from processSecret_heapAfter [of rnd pod tp ann st s]
  obtain ys where ys: "heapAfter (processSecret rnd pod tp ann st s) = heap st @ ys" ..
  show ?case
  proof (cases "processSecret rnd pod tp ann st s")
    case (Inl a)
    with ys show ?thesis by (simp add: heapAfter_def split: prod.splits)
  next
    case (Inr st1)
    from Cons.IH [of st1] obtain zs
      where "heapAfter (runSecrets rnd pod tp ann st1 secrets) = heap st1 @ zs" ..
    with Inr ys show ?thesis by (simp add: heapAfter_def)
  qed
qed

text \<open>
  Claim C9. \<open>createPatch\<close> never changes the shared template: every object the store
  held before the call, the template among them, is the same after the call, for any
  listing of secrets and whether the call returns or panics; the writes go to the copies,
  which are new objects.
\<close>

theorem template_never_mutated:
  "take (length h) (storeAfter (createPatch enc rnd secretList h pod tp ann)) = h \<and>
   (tp < length h \<longrightarrow> storeAfter (createPatch enc rnd secretList h pod tp ann) ! tp = h ! tp)"
proof -
  from runSecrets_heapAfter [of rnd pod tp ann "initialState pod h" secretList]
  obtain ys where
    "heapAfter (runSecrets rnd pod tp ann (initialState pod h) secretList) = h @ ys"
    by (auto simp add: initialState_def)
  then have "storeAfter (createPatch enc rnd secretList h pod tp ann) = h @ ys"
    by (simp add: createPatch_def storeAfter_def heapAfter_def split: sum.splits prod.splits)
  then show ?thesis by (simp add: nth_append)
qed

theorem template_never_mutated_witness:
  "storeAfter (createPatch encodeOpPath zeroDraws [acctSecret, incompleteSecret, acctSecret]
       [templateConfig] notebookPod 0 statusAnnotations) ! 0 = templateConfig \<and>
   length (storeAfter (createPatch encodeOpPath zeroDraws [acctSecret, incompleteSecret, acctSecret]
       [templateConfig] notebookPod 0 statusAnnotations)) = 4 \<and>
   map_sum fst fst (createPatch encodeOpPath zeroDraws [acctSecret] [shortTemplate] notebookPod 0
       statusAnnotations) = Inl IndexOutOfRange \<and>
   storeAfter (createPatch encodeOpPath zeroDraws [acctSecret] [shortTemplate] notebookPod 0
       statusAnnotations) ! 0 = shortTemplate"
proof -
  have len: "length (storeAfter (createPatch encodeOpPath zeroDraws
      [acctSecret, incompleteSecret, acctSecret] [templateConfig] notebookPod 0 statusAnnotations)) = 4"
    by (simp add: string_defs name_defs run_defs example_defs Let_def)
  have panic: "map_sum fst fst (createPatch encodeOpPath zeroDraws [acctSecret] [shortTemplate]
      notebookPod 0 statusAnnotations) = Inl IndexOutOfRange"
    by (simp add: string_defs name_defs run_defs example_defs shortTemplate_def Let_def)
  from template_never_mutated [of "[templateConfig]" encodeOpPath zeroDraws
      "[acctSecret, incompleteSecret, acctSecret]" notebookPod 0 statusAnnotations]
    template_never_mutated [of "[shortTemplate]" encodeOpPath zeroDraws
      "[acctSecret]" notebookPod 0 statusAnnotations] len panic
  show ?thesis by simp
qed

section \<open>Secrets with missing fields\<close>

text \<open>
  Claim C8. A candidate secret with one of the four required fields (mount path, endpoint
  URL, access key, secret key) empty adds no operation to the patch and no name to
  \<open>filerBucketList\<close>, and the loop goes on with the next secret: patch, names and
  outcome of the request are those of the listing without this secret.
\<close>

theorem missing_fields_skipped:
  assumes "Contains (secret_Name secret) ''filer-conn-secret''"
    and "fieldsMissing secret"
    and "tp < length (heap st)"
  shows "\<exists>st'. processSecret rnd pod tp ann st secret = Inr st' \<and>
     patch st' = patch st \<and> filerBucketList st' = filerBucketList st \<and>
     isFirstVol st' = isFirstVol st \<and> draws st' = draws st \<and> heap st' ! tp = heap st ! tp \<and>
     runSecrets rnd pod tp ann st (secret # rest) = runSecrets rnd pod tp ann st' rest \<and>
     map_sum fst patch (runSecrets rnd pod tp ann st (pre @ secret # rest)) =
       map_sum fst patch (runSecrets rnd pod tp ann st (pre @ rest)) \<and>
     map_sum fst filerBucketList (runSecrets rnd pod tp ann st (pre @ secret # rest)) =
       map_sum fst filerBucketList (runSecrets rnd pod tp ann st (pre @ rest)) \<and>
     map_sum fst fst (createPatch enc rnd (pre @ secret # rest) (heap st) pod tp ann) =
       map_sum fst fst (createPatch enc rnd (pre @ rest) (heap st) pod tp ann)"
proof -
  let ?st' = "st\<lparr>heap := heap st @ [copyConfig (heap st ! tp)]\<rparr>"
  have step: "processSecret rnd pod tp ann st secret = Inr ?st'"
    by (rule processSecret_missing [OF assms])
  have rel: "rel_sum sameError (agree tp) (runSecrets rnd pod tp ann s (pre @ secret # rest))
      (runSecrets rnd pod tp ann s (pre @ rest))" if "tp < length (heap s)" for s
    by (rule runSecrets_without [OF assms(1,2) agree_refl [OF that]])
  have "tp < length (heap (initialState pod (heap st)))"
    using assms(3) by (simp add: initialState_def)
  from rel [OF this] have out: "map_sum fst fst (createPatch enc rnd (pre @ secret # rest) (heap st) pod tp ann) =
       map_sum fst fst (createPatch enc rnd (pre @ rest) (heap st) pod tp ann)"
    by (cases "runSecrets rnd pod tp ann (initialState pod (heap st)) (pre @ secret # rest)";
        cases "runSecrets rnd pod tp ann (initialState pod (heap st)) (pre @ rest)")
       (auto simp add: createPatch_def agree_def sameError_def)
  from step assms(3) rel_sum_agree_patch [OF rel [OF assms(3)]]
    rel_sum_agree_names [OF rel [OF assms(3)]] out
  show ?thesis by (intro exI [of _ ?st']) (simp add: nth_append)
qed

theorem missing_fields_skipped_witness:
  "\<exists>st'. processSecret zeroDraws notebookPod 0 statusAnnotations
        (initialState notebookPod [templateConfig]) incompleteSecret = Inr st' \<and>
     patch st' = [] \<and> filerBucketList st' = [] \<and> isFirstVol st' \<and>
     runSecrets zeroDraws notebookPod 0 statusAnnotations (initialState notebookPod [templateConfig])
        [incompleteSecret, acctSecret] =
     runSecrets zeroDraws notebookPod 0 statusAnnotations st' [acctSecret] \<and>
     map_sum fst fst (createPatch encodeOpPath zeroDraws [acctSecret, incompleteSecret, acctSecret]
        [templateConfig] notebookPod 0 statusAnnotations) =
     map_sum fst fst (createPatch encodeOpPath zeroDraws [acctSecret, acctSecret]
        [templateConfig] notebookPod 0 statusAnnotations)"
proof -
  have c: "Contains (secret_Name incompleteSecret) ''filer-conn-secret''"
    by (simp add: example_defs)
  have f: "fieldsMissing incompleteSecret"
    by (simp add: string_defs run_defs example_defs)
  have t: "0 < length (heap (initialState notebookPod [templateConfig]))"
    by (simp add: initialState_def)
  from missing_fields_skipped [OF c f t, of zeroDraws notebookPod statusAnnotations "[acctSecret]"
      "[acctSecret]" encodeOpPath]
  show ?thesis by (auto simp add: initialState_def notebookPod_def)
qed

section \<open>The patch without a valid candidate\<close>

text \<open>
  Against claim C6 as stated: for an empty listing, and for a listing with no valid
  candidate, the serialized patch is \<open>null\<close>, not \<open>[]\<close>.
\<close>

theorem no_valid_candidate_null_counterexample:
  "createPatch encodeOpPath zeroDraws [] [templateConfig] notebookPod 0 statusAnnotations =
     Inr (''null'', [templateConfig]) \<and>
   createPatch encodeOpPath zeroDraws [incompleteSecret, otherSecret] [templateConfig] notebookPod 0
       statusAnnotations = Inr (''null'', [templateConfig, templateConfig]) \<and>
   map_sum fst fst (createPatch encodeOpPath zeroDraws [] [templateConfig] notebookPod 0
       statusAnnotations) \<noteq> Inr ''[]''"
  by (simp add: string_defs run_defs example_defs)

text \<open>
  Claim C6, amended. If no listed secret is a valid candidate (the empty listing included),
  \<open>createPatch\<close> returns without error, the list of operations is empty and its
  serialization is the JSON value \<open>null\<close>.
\<close>

theorem no_valid_candidate_null:
  assumes "\<not> list_ex validCandidate secretList" and "tp < length h"
  shows "\<exists>st. runSecrets rnd pod tp ann (initialState pod h) secretList = Inr st \<and>
     patch st = [] \<and>
     createPatch enc rnd secretList h pod tp ann = Inr (''null'', heap st)"
proof -
  from assms(1) have "filter validCandidate secretList = []"
    by (simp add: list_ex_iff filter_empty_conv)
  moreover have "agree tp (initialState pod h) (initialState pod h)"
    using assms(2) by (simp add: agree_def initialState_def)
  ultimately have "rel_sum sameError (agree tp)
      (runSecrets rnd pod tp ann (initialState pod h) secretList) (Inr (initialState pod h))"
    using runSecrets_valid_only [of tp "initialState pod h" "initialState pod h" rnd pod ann secretList]
    by simp
  then obtain st where "runSecrets rnd pod tp ann (initialState pod h) secretList = Inr st"
    and "agree tp st (initialState pod h)"
    by (cases "runSecrets rnd pod tp ann (initialState pod h) secretList") auto
  then show ?thesis
    by (simp add: createPatch_def Marshal_def agree_def initialState_def)
qed

theorem no_valid_candidate_null_witness:
  "\<exists>st. runSecrets zeroDraws notebookPod 0 statusAnnotations
        (initialState notebookPod [templateConfig]) [incompleteSecret, otherSecret] = Inr st \<and>
     patch st = [] \<and>
     createPatch encodeOpPath zeroDraws [incompleteSecret, otherSecret] [templateConfig] notebookPod 0
        statusAnnotations = Inr (''null'', heap st)"
proof -
  have "\<not> list_ex validCandidate [incompleteSecret, otherSecret]"
    by (simp add: string_defs run_defs example_defs)
  moreover have "(0::nat) < length [templateConfig]" by simp
  ultimately show ?thesis by (rule no_valid_candidate_null)
qed

section \<open>The first working volume mount\<close>

lemma processSecret_isFirstVol:
  assumes "processSecret rnd pod tp ann st secret = Inr st'"
  shows "isFirstVol st' = (isFirstVol st \<and> \<not> validCandidate secret)"
proof (cases "validCandidate secret")
  case True
  from processSecret_valid_Inr [OF assms True] True show ?thesis by auto
next
  case False
  with assms show ?thesis
    by (auto simp add: processSecret_def deepcopy_def validCandidate_def split: if_splits)
qed

lemma runSecrets_isFirstVol:
  "runSecrets rnd pod tp ann st pre = Inr st' \<Longrightarrow>
   isFirstVol st' = (isFirstVol st \<and> \<not> list_ex validCandidate pre)"
proof (induction pre arbitrary: st)
  case Nil
  then show ?case by simp
next
  case (Cons x pre)
  then obtain st1 where 1: "processSecret rnd pod tp ann st x = Inr st1"
    and 2: "runSecrets rnd pod tp ann st1 pre = Inr st'"
    by (auto split: sum.splits)
  from Cons.IH [OF 2] processSecret_isFirstVol [OF 1] show ?case by auto
qed

lemma envOps_replicate:
  "concat (map (\<lambda>e. if env_Name e = ''NB_PREFIX'' then [x] else []) es) =
   replicate (length (filter (\<lambda>e. env_Name e = ''NB_PREFIX'') es)) x"
  by (induction es) auto

lemma updateWorkingVolumeMounts_replicate:
  "updateWorkingVolumeMounts cs v b f isFirst =
   replicate (length (filter (\<lambda>e. env_Name e = ''NB_PREFIX'') (concat (map c_Env cs))))
     (mountOp v b f isFirst)"
  unfolding updateWorkingVolumeMounts_def
  by (induction cs) (simp_all add: envOps_replicate replicate_add)

text \<open>
  What the code does. The flag \<open>isFirst\<close> that \<open>updateWorkingVolumeMounts\<close> receives
  is true exactly at the first valid candidate of a request for a pod without volumes
  (\<open>pod.Spec.Volumes\<close> empty; the volume mounts of container 0 are not looked at). For
  every \<open>NB_PREFIX\<close> environment entry of the pod's containers the builder emits, when
  the flag is true, an \<open>add\<close> of a one-element list at
  \<open>/spec/containers/0/volumeMounts\<close>, and otherwise an \<open>add\<close> at
  \<open>/spec/containers/0/volumeMounts/-\<close>.
\<close>

lemma isFirstVol_from_pod_volumes:
  "(runSecrets rnd pod tp ann (initialState pod h) pre = Inr st \<longrightarrow>
      isFirstVol st = (spec_Volumes (Spec pod) = [] \<and> \<not> list_ex validCandidate pre)) \<and>
   (processSecret rnd pod tp ann s secret = Inr s' \<and> validCandidate secret \<longrightarrow>
      (\<exists>ops tok. patch s' = patch s @ ops @
         updateWorkingVolumeMounts (spec_Containers (Spec pod))
           (''fuse-csi-ephemeral-'' @ tok @ ''-'' @ Namespace (ObjectMeta pod))
           (mapIndex (Data secret) ''S3_BUCKET'') (filerNameOf secret) (isFirstVol s))) \<and>
   updateWorkingVolumeMounts cs v b f isFirst =
     replicate (length (filter (\<lambda>e. env_Name e = ''NB_PREFIX'') (concat (map c_Env cs))))
       (if isFirst
        then \<lparr>Op = ''add'', Path = ''/spec/containers/0/volumeMounts'',
               Value = MountListV [valueA v b f]\<rparr>
        else \<lparr>Op = ''add'', Path = ''/spec/containers/0/volumeMounts/-'',
               Value = MountV (valueA v b f)\<rparr>)"
proof (intro conjI impI)
  assume "runSecrets rnd pod tp ann (initialState pod h) pre = Inr st"
  from runSecrets_isFirstVol [OF this]
  show "isFirstVol st = (spec_Volumes (Spec pod) = [] \<and> \<not> list_ex validCandidate pre)"
    by (simp add: initialState_def)
next
  assume a: "processSecret rnd pod tp ann s secret = Inr s' \<and> validCandidate secret"
  from processSecret_valid_Inr [of rnd pod tp ann s secret s'] a
  show "\<exists>ops tok. patch s' = patch s @ ops @
         updateWorkingVolumeMounts (spec_Containers (Spec pod))
           (''fuse-csi-ephemeral-'' @ tok @ ''-'' @ Namespace (ObjectMeta pod))
           (mapIndex (Data secret) ''S3_BUCKET'') (filerNameOf secret) (isFirstVol s)"
    unfolding sidecarOps_def by (metis append.assoc)
next
  show "updateWorkingVolumeMounts cs v b f isFirst =
     replicate (length (filter (\<lambda>e. env_Name e = ''NB_PREFIX'') (concat (map c_Env cs))))
       (if isFirst
        then \<lparr>Op = ''add'', Path = ''/spec/containers/0/volumeMounts'',
               Value = MountListV [valueA v b f]\<rparr>
        else \<lparr>Op = ''add'', Path = ''/spec/containers/0/volumeMounts/-'',
               Value = MountV (valueA v b f)\<rparr>)"
    by (simp add: updateWorkingVolumeMounts_replicate mountOp_def)
qed

text \<open>
  Claim C7 (the flag is true only for the first mount of the request and only when
  container 0 had no volume mount before; then the builder adds a one-element list at
  \<open>/spec/containers/0/volumeMounts\<close>, otherwise it appends), evaluated on a pod without
  volumes whose container 0 already has the volume mount \<open>dshm\<close>: the flag is true, and
  the builder adds a one-element list at \<open>/spec/containers/0/volumeMounts\<close>, in place
  of the list that holds \<open>dshm\<close>, against the comment of line 223.
\<close>

theorem first_mount_replaces_existing_mounts:
  "spec_Volumes (Spec mountedPod) = [] \<and>
   c_VolumeMounts (hd (spec_Containers (Spec mountedPod))) =
     [\<lparr>vm_Name = ''dshm'', vm_MountPath = ''/dev/shm''\<rparr>] \<and>
   isFirstVol (initialState mountedPod [templateConfig]) \<and>
   map_sum fst (last \<circ> patch)
     (runSecrets zeroDraws mountedPod 0 statusAnnotations (initialState mountedPod [templateConfig])
        [acctSecret]) =
   Inr \<lparr>Op = ''add'', Path = ''/spec/containers/0/volumeMounts'',
        Value = MountListV [valueA ''fuse-csi-ephemeral-acct-data-proje-ns1'' ''data/project'' ''acct'']\<rparr> \<and>
   map_sum fst (map Path \<circ> patch)
     (runSecrets zeroDraws mountedPod 0 statusAnnotations (initialState mountedPod [templateConfig])
        [acctSecret]) =
   Inr [''/spec/containers/-'', ''/spec/volumes'', ''/spec/volumes/-'', ''/metadata/annotations'',
        ''/spec/containers/0/volumeMounts'']"
  by (simp add: string_defs name_defs run_defs example_defs Let_def
      addContainer_def addVolume_def mountOp_def updateWorkingVolumeMounts_def sidecarOps_def)

section \<open>One credential with a two-segment mount path\<close>

lemma makeNameToken_acct_data_project:
  "makeNameToken rnd d ''acct'' ''data/project'' [] = (''acct-data-proje'', d)"
  by (simp add: string_defs name_defs)

text \<open>
  Against claim C5 as stated: for the pod \<open>notebookPod\<close> (with the label, namespace
  \<open>ns1\<close>) and the one credential with mount path \<open>data/project\<close> and source
  \<open>acct\<close>, the container is named \<open>acct-data-proje\<close>, not \<open>acct-data\<close>, and the
  volume names do not contain \<open>fuse-fd-passing-acct-data-ns1\<close> or
  \<open>fuse-csi-ephemeral-acct-data-ns1\<close>.
\<close>

theorem scenario_one_credential_counterexample:
  "mutationRequired lowerDottedI (ObjectMeta notebookPod) \<and> validCandidate acctSecret \<and>
   filerNameOf acctSecret = ''acct'' \<and> mapIndex (Data acctSecret) ''S3_BUCKET'' = ''data/project'' \<and>
   map_sum fst (map c_Name \<circ> addedContainers \<circ> patch)
     (runSecrets zeroDraws notebookPod 0 statusAnnotations (initialState notebookPod [templateConfig])
        [acctSecret]) = Inr [''acct-data-proje''] \<and>
   map_sum fst (map c_Name \<circ> addedContainers \<circ> patch)
     (runSecrets zeroDraws notebookPod 0 statusAnnotations (initialState notebookPod [templateConfig])
        [acctSecret]) \<noteq> Inr [''acct-data''] \<and>
   map_sum fst (map (env_Value \<circ> hd \<circ> c_Env) \<circ> addedContainers \<circ> patch)
     (runSecrets zeroDraws notebookPod 0 statusAnnotations (initialState notebookPod [templateConfig])
        [acctSecret]) = Inr [''fusermount3-proxy-acct-data-proje-ns1/fuse-csi-ephemeral.sock''] \<and>
   map_sum fst (map v_Name \<circ> addedVolumes \<circ> patch)
     (runSecrets zeroDraws notebookPod 0 statusAnnotations (initialState notebookPod [templateConfig])
        [acctSecret]) =
     Inr [''fuse-fd-passing-acct-data-proje-ns1'', ''fuse-csi-ephemeral-acct-data-proje-ns1''] \<and>
   \<not> Contains ''fuse-fd-passing-acct-data-proje-ns1'' ''fuse-fd-passing-acct-data-ns1'' \<and>
   \<not> Contains ''fuse-csi-ephemeral-acct-data-proje-ns1'' ''fuse-csi-ephemeral-acct-data-ns1''"
  by (simp add: mutationRequired_def string_defs name_defs run_defs example_defs builder_defs Let_def)

text \<open>
  Claim C5, amended. For a pod, a template that fits and a listing with exactly one valid
  credential, of mount path \<open>data/project\<close> and source \<open>acct\<close>: the call returns, the
  sidecar container is named \<open>acct-data-proje\<close> (the deepest directory, cut to five bytes,
  is part of the name), its first environment value is
  \<open>fusermount3-proxy-acct-data-proje-<namespace>/fuse-csi-ephemeral.sock\<close>, and its two
  volumes are named \<open>fuse-fd-passing-acct-data-proje-<namespace>\<close> and
  \<open>fuse-csi-ephemeral-acct-data-proje-<namespace>\<close>.
\<close>

theorem scenario_one_credential:
  assumes "filter validCandidate secretList = [secret]"
    and "filerNameOf secret = ''acct''"
    and "mapIndex (Data secret) ''S3_BUCKET'' = ''data/project''"
    and "tp < length h"
    and "templateFits (h ! tp)"
  shows "\<exists>st cfg c cs e0 es v0 v1 vs.
     runSecrets rnd pod tp ann (initialState pod h) secretList = Inr st \<and>
     patch st = sidecarOps pod ann cfg ''acct-data-proje'' ''data/project'' ''acct''
                  (spec_Volumes (Spec pod) = []) \<and>
     filerBucketList st = [''acct-data-proje''] \<and>
     cfg_Containers cfg = c # cs \<and> c_Name c = ''acct-data-proje'' \<and>
     c_Env c = e0 # es \<and>
     env_Value e0 = ''fusermount3-proxy-acct-data-proje-'' @ Namespace (ObjectMeta pod) @
                      ''/fuse-csi-ephemeral.sock'' \<and>
     cfg_Volumes cfg = v0 # v1 # vs \<and>
     v_Name v0 = ''fuse-fd-passing-acct-data-proje-'' @ Namespace (ObjectMeta pod) \<and>
     v_Name v1 = ''fuse-csi-ephemeral-acct-data-proje-'' @ Namespace (ObjectMeta pod)"
proof -
  let ?s0 = "initialState pod h"
  have s0: "patch ?s0 = []" "filerBucketList ?s0 = []" "draws ?s0 = 0"
    "isFirstVol ?s0 = (spec_Volumes (Spec pod) = [])" "heap ?s0 = h"
    by (simp_all add: initialState_def)
  from assms(1) have "secret \<in> set (filter validCandidate secretList)" by simp
  then have v: "validCandidate secret" by simp
  from assms(4,5) have "tp < length (heap ?s0) \<and> templateFits (heap ?s0 ! tp)"
    by (simp add: s0)
  with processSecret_returns_iff [OF v, of rnd pod tp ann ?s0]
  obtain t where t: "processSecret rnd pod tp ann ?s0 secret = Inr t" by blast
  from assms(4) have "agree tp ?s0 ?s0" by (simp add: agree_def s0)
  from runSecrets_valid_only [OF this, of rnd pod ann secretList] assms(1) t
  have "rel_sum sameError (agree tp) (runSecrets rnd pod tp ann ?s0 secretList) (Inr t)" by simp
  then obtain st where st: "runSecrets rnd pod tp ann ?s0 secretList = Inr st"
    and a: "agree tp st t"
    by (cases "runSecrets rnd pod tp ann ?s0 secretList") auto
  from processSecret_valid_Inr [OF t v] obtain cfg where
    s: "specialize (copyConfig (h ! tp)) ''acct-data-proje'' (Namespace (ObjectMeta pod))
          (mapIndex (Data secret) ''S3_URL'') (mapIndex (Data secret) ''S3_ACCESS'')
          (mapIndex (Data secret) ''S3_SECRET'') ''data/project'' = Inr cfg"
    and p: "patch t = sidecarOps pod ann cfg ''acct-data-proje'' ''data/project'' ''acct''
              (spec_Volumes (Spec pod) = [])"
    and n: "filerBucketList t = [''acct-data-proje'']"
    unfolding assms(2,3) s0 makeNameToken_acct_data_project by auto
  from specialize_facts [OF s] obtain c cs e0 es v0 v1 vs where
    "cfg_Containers cfg = c # cs" "c_Name c = ''acct-data-proje''" "c_Env c = e0 # es"
    "env_Value e0 = ''fusermount3-proxy-'' @ ''acct-data-proje'' @ ''-'' @ Namespace (ObjectMeta pod) @
        ''/fuse-csi-ephemeral.sock''"
    "cfg_Volumes cfg = v0 # v1 # vs"
    "v_Name v0 = ''fuse-fd-passing-'' @ ''acct-data-proje'' @ ''-'' @ Namespace (ObjectMeta pod)"
    "v_Name v1 = ''fuse-csi-ephemeral-'' @ ''acct-data-proje'' @ ''-'' @ Namespace (ObjectMeta pod)"
    by blast
  with p n a st show ?thesis
    by (intro exI [of _ st] exI [of _ cfg] exI [of _ c] exI [of _ cs] exI [of _ e0] exI [of _ es]
        exI [of _ v0] exI [of _ v1] exI [of _ vs]) (simp add: agree_def)
qed

text \<open>On the template with the nil \<open>VolumeAttributes\<close> map, in a listing with a
  non-candidate and an incomplete candidate.\<close>

theorem scenario_one_credential_witness:
  "\<exists>st cfg c cs e0 es v0 v1 vs.
     runSecrets zeroDraws notebookPod 0 statusAnnotations
        (initialState notebookPod [nilAttributesTemplate])
        [otherSecret, acctSecret, incompleteSecret] = Inr st \<and>
     patch st = sidecarOps notebookPod statusAnnotations cfg ''acct-data-proje'' ''data/project''
                  ''acct'' (spec_Volumes (Spec notebookPod) = []) \<and>
     filerBucketList st = [''acct-data-proje''] \<and>
     cfg_Containers cfg = c # cs \<and> c_Name c = ''acct-data-proje'' \<and>
     c_Env c = e0 # es \<and>
     env_Value e0 = ''fusermount3-proxy-acct-data-proje-'' @ Namespace (ObjectMeta notebookPod) @
                      ''/fuse-csi-ephemeral.sock'' \<and>
     cfg_Volumes cfg = v0 # v1 # vs \<and>
     v_Name v0 = ''fuse-fd-passing-acct-data-proje-'' @ Namespace (ObjectMeta notebookPod) \<and>
     v_Name v1 = ''fuse-csi-ephemeral-acct-data-proje-'' @ Namespace (ObjectMeta notebookPod)"
proof -
  have 1: "filter validCandidate [otherSecret, acctSecret, incompleteSecret] = [acctSecret]"
    by (simp add: string_defs run_defs example_defs)
  have 2: "filerNameOf acctSecret = ''acct''"
    by (simp add: name_defs example_defs)
  have 3: "mapIndex (Data acctSecret) ''S3_BUCKET'' = ''data/project''"
    by (simp add: string_defs example_defs)
  have 4: "(0::nat) < length [nilAttributesTemplate]" by simp
  have 5: "templateFits ([nilAttributesTemplate] ! 0)"
    by (simp add: templateFits_def example_defs)
  show ?thesis by (rule scenario_one_credential [OF 1 2 3 4 5])
qed

section \<open>Generated names\<close>

lemma withOrdinal_suffix:
  "withOrdinal used name =
     (if name \<in> set used then name @ ''-'' @ Itoa (int (length used) + 1) else name)"
  by (simp add: withOrdinal_def)

lemma digit_isLowerAlnum: "k < 10 \<Longrightarrow> isLowerAlnum (''0123456789'' ! k)"
proof -
  assume "k < 10"
  then have "k \<in> {0, 1, 2, 3, 4, 5, 6, 7, 8, 9}" by auto
  then show ?thesis
    by (auto simp add: isLowerAlnum_def lowerLetters_def)
qed

lemma natDigits_chars:
  "natDigits n \<noteq> [] \<and> list_all isLowerAlnum (natDigits n)"
proof (induction n rule: natDigits.induct)
  case (1 n)
  show ?case
  proof (cases "n < 10")
    case True
    then show ?thesis
      by (subst (1 2) natDigits.simps) (simp add: digit_isLowerAlnum)
  next
    case False
    with 1 show ?thesis
      by (subst (1 2) natDigits.simps) (simp add: digit_isLowerAlnum)
  qed
qed

lemma validName_append:
  assumes "validName a" "b \<noteq> []" "list_all isNameChar b" "isLowerAlnum (last b)"
  shows "validName (a @ b)"
proof (cases a)
  case Nil
  with assms show ?thesis by simp
next
  case (Cons c cs)
  with assms show ?thesis by (cases "cs = []") auto
qed

lemma validName_ordinal:
  assumes "validName name"
  shows "validName (name @ ''-'' @ Itoa (int k + 1))"
proof -
  have i: "Itoa (int k + 1) = natDigits (Suc k)"
    by (simp add: Itoa_def nat_add_distrib)
  from natDigits_chars [of "Suc k"] have d: "natDigits (Suc k) \<noteq> []"
    "list_all isLowerAlnum (natDigits (Suc k))" by simp_all
  from d have l: "isLowerAlnum (last (natDigits (Suc k)))"
    by (simp add: list_all_iff)
  from d have n: "list_all isNameChar (''-'' @ natDigits (Suc k))"
    by (simp add: list_all_iff isNameChar_def)
  from validName_append [OF assms _ n] d l show ?thesis
    unfolding i by simp
qed

text \<open>With a mount path of one segment, and off the random-suffix path, the returned name
  matches the grammar, the ordinal suffix included.\<close>

lemma single_segment_name_valid:
  assumes "\<not> fallbackReached filerName bucketMount"
    and "length (Split bucketMount CHR ''/'') < 2"
  shows "validName (fst (makeNameToken rnd d filerName bucketMount used))"
proof -
  let ?j = "joinedName filerName (Split bucketMount CHR ''/'')"
  from assms(1) have v: "validName (fst (validatedName rnd d ?j))"
    by (auto simp add: fallbackReached_def validatedName_def Let_def)
  from assms(2) have c: "fst (computedName rnd d filerName bucketMount) = fst (validatedName rnd d ?j)"
    by (simp add: computedName_def withDeepestDir_def Let_def split: prod.splits)
  obtain n d' where n: "computedName rnd d filerName bucketMount = (n, d')"
    by (cases "computedName rnd d filerName bucketMount")
  with v c have "validName n" by simp
  with n validName_ordinal [of n "length used"] show ?thesis
    by (simp add: makeNameToken_def withOrdinal_def)
qed

text \<open>
  Claim C3 (every returned name is distinct from the names already recorded; a computed
  name already recorded gets the suffix \<open>-<n>\<close>, n = 1 + the number of names so far),
  evaluated on three secrets of filer \<open>acct\<close> with mount paths \<open>data/3\<close>, \<open>data\<close>
  and \<open>data\<close>: the third computed name \<open>acct-data\<close> is recorded already, the suffix
  gives \<open>acct-data-3\<close>, and that name is recorded already too.
\<close>

theorem ordinal_suffix_collides:
  "makeNameToken zeroDraws 0 ''acct'' ''data'' [''acct-data-3'', ''acct-data''] = (''acct-data-3'', 0) \<and>
   fst (makeNameToken zeroDraws 0 ''acct'' ''data'' [''acct-data-3'', ''acct-data''])
     \<in> set [''acct-data-3'', ''acct-data''] \<and>
   map_sum fst filerBucketList
     (runSecrets zeroDraws notebookPod 0 statusAnnotations (initialState notebookPod [templateConfig])
        [filerSecret ''acct-a-filer-conn-secret'' ''data/3'',
         filerSecret ''acct-b-filer-conn-secret'' ''data'',
         filerSecret ''acct-c-filer-conn-secret'' ''data'']) =
     Inr [''acct-data-3'', ''acct-data'', ''acct-data-3''] \<and>
   map_sum fst (map c_Name \<circ> addedContainers \<circ> patch)
     (runSecrets zeroDraws notebookPod 0 statusAnnotations (initialState notebookPod [templateConfig])
        [filerSecret ''acct-a-filer-conn-secret'' ''data/3'',
         filerSecret ''acct-b-filer-conn-secret'' ''data'',
         filerSecret ''acct-c-filer-conn-secret'' ''data'']) =
     Inr [''acct-data-3'', ''acct-data'', ''acct-data-3'']"
  by (simp add: string_defs name_defs run_defs example_defs builder_defs Let_def)

text \<open>
  Claim C4 (off the random-suffix path, the returned name matches
  \<open>^[a-z0-9]([-a-z0-9]*[a-z0-9])?$\<close>), evaluated on source \<open>acct\<close> with mount paths
  \<open>data/Project\<close> and \<open>data/\<close>: the joined name \<open>acct-data\<close> passes the validation,
  the deepest directory is appended after it, and the returned names \<open>acct-data-Proje\<close> and
  \<open>acct-data-\<close> do not match.
\<close>

theorem deepest_dir_not_validated:
  "validName (joinedName ''acct'' (Split ''data/Project'' CHR ''/'')) \<and>
   \<not> fallbackReached ''acct'' ''data/Project'' \<and>
   makeNameToken zeroDraws 0 ''acct'' ''data/Project'' [] = (''acct-data-Proje'', 0) \<and>
   \<not> validName ''acct-data-Proje'' \<and>
   map_sum fst (map c_Name \<circ> addedContainers \<circ> patch)
     (runSecrets zeroDraws notebookPod 0 statusAnnotations (initialState notebookPod [templateConfig])
        [filerSecret ''acct-filer-conn-secret'' ''data/Project'']) = Inr [''acct-data-Proje''] \<and>
   \<not> fallbackReached ''acct'' ''data/'' \<and>
   makeNameToken zeroDraws 0 ''acct'' ''data/'' [] = (''acct-data-'', 0) \<and>
   \<not> validName ''acct-data-''"
  by (simp add: string_defs name_defs run_defs example_defs builder_defs Let_def)

end
